theory Spec2Isabelle
  imports Complex_Main "HOL-Library.Multiset"
begin

section \<open>JavaScript values at the boundary of the matcher\<close>

text \<open>
  The matcher (\<^verbatim>\<open>public/shared/js/matcher.js\<close>, class \<^verbatim>\<open>FastShipMatcher\<close>) reads
  plain fields of two row objects. Numbers are IEEE doubles in the source; here a finite
  double is a real (no rounding, no negative zero) and the three special values are kept,
  because the source's comparisons and its \<^verbatim>\<open>|| 0\<close> fallbacks depend on them.
  Where the source rounds a quotient, a sum or a product, the model is exact. The two
  differ by the last bit of a score, and at the edge of a utilization band: 10.8 / 9 is
  above 1.2 as a double and exactly 1.2 here, so the capacity sub-score is 0 in the
  source and 0.6 in the model. The theorems below hold for either value.
\<close>

datatype jsnum = NaN | PInf | NInf | Fin real

text \<open>A string is its sequence of UTF-16 code units.\<close>

type_synonym jsstring = "nat list"

definition ascii :: "string \<Rightarrow> jsstring" where
  "ascii s = map of_char s"

text \<open>
  The field values the source can meet. Objects and arrays are left out: a row of the
  backend holds none in the fields read here.
\<close>

datatype jsval = JUndefined | JNull | JBool bool | JNum jsnum | JStr jsstring

datatype js_error =
    TypeError
  | Error jsstring
  | PostgrestError jsstring jsstring

text \<open>\<^verbatim>\<open>!v\<close>: the values JavaScript treats as false.\<close>

fun falsy :: "jsval \<Rightarrow> bool" where
  "falsy JUndefined = True"
| "falsy JNull = True"
| "falsy (JBool b) = (\<not> b)"
| "falsy (JNum NaN) = True"
| "falsy (JNum (Fin r)) = (r = 0)"
| "falsy (JNum _) = False"
| "falsy (JStr s) = (s = [])"

text \<open>\<^verbatim>\<open>a || b\<close> on field values.\<close>

definition js_or :: "jsval \<Rightarrow> jsval \<Rightarrow> jsval" where
  "js_or a b = (if falsy a then b else a)"

text \<open>\<^verbatim>\<open>a === b\<close>: structural, except that NaN differs from itself.\<close>

definition strict_eq :: "jsval \<Rightarrow> jsval \<Rightarrow> bool" where
  "strict_eq a b = (a = b \<and> a \<noteq> JNum NaN)"

subsection \<open>Arithmetic and comparison of numbers\<close>

fun js_sub :: "jsnum \<Rightarrow> jsnum \<Rightarrow> jsnum" where
  "js_sub (Fin a) (Fin b) = Fin (a - b)"
| "js_sub NaN _ = NaN"
| "js_sub _ NaN = NaN"
| "js_sub PInf PInf = NaN"
| "js_sub NInf NInf = NaN"
| "js_sub PInf _ = PInf"
| "js_sub NInf _ = NInf"
| "js_sub (Fin a) PInf = NInf"
| "js_sub (Fin a) NInf = PInf"

text \<open>
  Division. A zero divisor is the positive zero: the one place where the source divides
  by a possible zero has replaced every zero by the literal \<^verbatim>\<open>0\<close> before.
\<close>

fun js_div :: "jsnum \<Rightarrow> jsnum \<Rightarrow> jsnum" where
  "js_div NaN _ = NaN"
| "js_div _ NaN = NaN"
| "js_div (Fin a) (Fin b) =
     (if b \<noteq> 0 then Fin (a / b)
      else if a > 0 then PInf else if a < 0 then NInf else NaN)"
| "js_div (Fin a) _ = Fin 0"
| "js_div PInf (Fin b) = (if b < 0 then NInf else PInf)"
| "js_div NInf (Fin b) = (if b < 0 then PInf else NInf)"
| "js_div _ _ = NaN"

fun js_abs :: "jsnum \<Rightarrow> jsnum" where
  "js_abs NaN = NaN"
| "js_abs (Fin a) = Fin \<bar>a\<bar>"
| "js_abs _ = PInf"

fun js_le :: "jsnum \<Rightarrow> jsnum \<Rightarrow> bool" where
  "js_le NaN _ = False"
| "js_le _ NaN = False"
| "js_le (Fin a) (Fin b) = (a \<le> b)"
| "js_le NInf _ = True"
| "js_le _ PInf = True"
| "js_le _ _ = False"

definition js_ge :: "jsnum \<Rightarrow> jsnum \<Rightarrow> bool" where
  "js_ge a b = js_le b a"

fun js_gt :: "jsnum \<Rightarrow> jsnum \<Rightarrow> bool" where
  "js_gt NaN _ = False"
| "js_gt _ NaN = False"
| "js_gt (Fin a) (Fin b) = (a > b)"
| "js_gt PInf PInf = False"
| "js_gt PInf _ = True"
| "js_gt NInf _ = False"
| "js_gt (Fin a) NInf = True"
| "js_gt (Fin a) PInf = False"

text \<open>\<^verbatim>\<open>a === b\<close> on numbers.\<close>

definition js_num_eq :: "jsnum \<Rightarrow> jsnum \<Rightarrow> bool" where
  "js_num_eq a b = (a = b \<and> a \<noteq> NaN)"

text \<open>\<^verbatim>\<open>x || 0\<close> on a number: NaN and zero give 0.\<close>

definition or_zero :: "jsnum \<Rightarrow> jsnum" where
  "or_zero x = (if falsy (JNum x) then Fin 0 else x)"

section \<open>Strings\<close>

text \<open>
  \<^verbatim>\<open>String.prototype.toLowerCase\<close>. The case mapping is modelled on the ASCII letters;
  every other code unit is kept, which is what JavaScript does on Arabic script, digits
  and punctuation. JavaScript also lower-cases the cased letters outside ASCII, so on a
  location holding such a letter in upper case the source and this model can differ. No
  theorem below depends on which mapping it is.
\<close>

definition lower_unit :: "nat \<Rightarrow> nat" where
  "lower_unit c = (if 65 \<le> c \<and> c \<le> 90 then c + 32 else c)"

definition toLowerCase :: "jsstring \<Rightarrow> jsstring" where
  "toLowerCase s = map lower_unit s"

text \<open>
  \<^verbatim>\<open>String.prototype.trim\<close> removes the WhiteSpace and LineTerminator code units of
  ECMAScript from both ends.
\<close>

definition white_space :: "nat \<Rightarrow> bool" where
  "white_space c \<longleftrightarrow>
     c \<in> {0x9, 0xA, 0xB, 0xC, 0xD, 0x20, 0xA0, 0x1680, 0x2028, 0x2029, 0x202F, 0x205F,
          0x3000, 0xFEFF} \<or> (0x2000 \<le> c \<and> c \<le> 0x200A)"

definition trim :: "jsstring \<Rightarrow> jsstring" where
  "trim s = rev (dropWhile white_space (rev (dropWhile white_space s)))"

text \<open>\<^verbatim>\<open>s.includes(sub)\<close>: \<open>sub\<close> occurs in \<open>s\<close> as a contiguous run.\<close>

fun starts_with :: "jsstring \<Rightarrow> jsstring \<Rightarrow> bool" where
  "starts_with s [] = True"
| "starts_with [] (p # ps) = False"
| "starts_with (c # cs) (p # ps) = (c = p \<and> starts_with cs ps)"

fun str_includes :: "jsstring \<Rightarrow> jsstring \<Rightarrow> bool" where
  "str_includes [] sub = (sub = [])"
| "str_includes (c # cs) sub = (starts_with (c # cs) sub \<or> str_includes cs sub)"

section \<open>Location similarity\<close>

text \<open>The city names of the source, as code units, under their usual English names.\<close>

definition Riyadh :: jsstring where "Riyadh = [0x627, 0x644, 0x631, 0x64A, 0x627, 0x636]"
definition Jeddah :: jsstring where "Jeddah = [0x62C, 0x62F, 0x629]"
definition Makkah :: jsstring where "Makkah = [0x645, 0x643, 0x629]"
definition Madinah :: jsstring where
  "Madinah = [0x627, 0x644, 0x645, 0x62F, 0x64A, 0x646, 0x629]"
definition Dammam :: jsstring where "Dammam = [0x627, 0x644, 0x62F, 0x645, 0x627, 0x645]"
definition Khobar :: jsstring where "Khobar = [0x627, 0x644, 0x62E, 0x628, 0x631]"
definition Abha :: jsstring where "Abha = [0x623, 0x628, 0x647, 0x627]"
definition Tabuk :: jsstring where "Tabuk = [0x62A, 0x628, 0x648, 0x643]"
definition Hail :: jsstring where "Hail = [0x62D, 0x627, 0x626, 0x644]"
definition Qassim :: jsstring where "Qassim = [0x627, 0x644, 0x642, 0x635, 0x64A, 0x645]"
definition Ahsa :: jsstring where
  "Ahsa = [0x627, 0x644, 0x623, 0x62D, 0x633, 0x627, 0x621]"
definition Jazan :: jsstring where "Jazan = [0x62C, 0x627, 0x632, 0x627, 0x646]"
definition Najran :: jsstring where "Najran = [0x646, 0x62C, 0x631, 0x627, 0x646]"
definition Jawf :: jsstring where "Jawf = [0x627, 0x644, 0x62C, 0x648, 0x641]"

text \<open>\<^verbatim>\<open>const cities = [...]\<close>, in the order of the source.\<close>

definition cities :: "jsstring list" where
  "cities = [Riyadh, Jeddah, Makkah, Madinah, Dammam, Khobar, Abha, Tabuk, Hail, Qassim]"

text \<open>
  \<^verbatim>\<open>const regions = {...}\<close>: the five entries in insertion order (centre, west, east,
  south, north), each key with its city list.
\<close>

definition regions :: "(jsstring \<times> jsstring list) list" where
  "regions =
    [([0x648, 0x633, 0x637], [Riyadh, Qassim, Hail]),
     ([0x63A, 0x631, 0x628], [Makkah, Jeddah, Madinah]),
     ([0x634, 0x631, 0x642], [Dammam, Khobar, Ahsa]),
     ([0x62C, 0x646, 0x648, 0x628], [Abha, Jazan, Najran]),
     ([0x634, 0x645, 0x627, 0x644], [Tabuk, Jawf, Hail])]"

text \<open>
  \<^verbatim>\<open>loc.toLowerCase().trim()\<close>. Only a string has the method; on any other value that
  reached this line the call raises a TypeError.
\<close>

definition clean :: "jsval \<Rightarrow> js_error + jsstring" where
  "clean loc = (case loc of JStr s \<Rightarrow> Inr (trim (toLowerCase s)) | _ \<Rightarrow> Inl TypeError)"

text \<open>The rules of \<^verbatim>\<open>locationSimilarity\<close> below the two cleaning lines.\<close>

definition region_shared :: "jsstring \<Rightarrow> jsstring \<Rightarrow> bool" where
  "region_shared clean1 clean2 =
     list_ex (\<lambda>(region, regionCities).
        list_ex (\<lambda>city. str_includes clean1 city) regionCities \<and>
        list_ex (\<lambda>city. str_includes clean2 city) regionCities) regions"

definition similarity_rules :: "jsstring \<Rightarrow> jsstring \<Rightarrow> real" where
  "similarity_rules clean1 clean2 =
     (if clean1 = clean2 then 1.0
      else if str_includes clean1 clean2 \<or> str_includes clean2 clean1 then 0.8
      else
        let city1 = find (\<lambda>city. str_includes clean1 city) cities;
            city2 = find (\<lambda>city. str_includes clean2 city) cities
        in if city1 \<noteq> None \<and> city2 \<noteq> None \<and> city1 = city2 then 0.9
           else if region_shared clean1 clean2 then 0.6
           else 0.2)"

definition locationSimilarity :: "jsval \<Rightarrow> jsval \<Rightarrow> js_error + real" where
  "locationSimilarity loc1 loc2 =
     (if falsy loc1 \<or> falsy loc2 then Inr 0
      else case clean loc1 of
             Inl e \<Rightarrow> Inl e
           | Inr clean1 \<Rightarrow>
               (case clean loc2 of
                  Inl e \<Rightarrow> Inl e
                | Inr clean2 \<Rightarrow> Inr (similarity_rules clean1 clean2)))"

section \<open>Rows\<close>

text \<open>
  A shipment and a trip are rows of the backend. The two conversions the source applies
  to a field before using it are functions of the JavaScript host, not of this
  repository: \<^verbatim>\<open>parseFloat(f)\<close> and \<^verbatim>\<open>new Date(f)\<close>. A numeric field therefore holds the
  number \<^verbatim>\<open>parseFloat\<close> yields on it (NaN when the field is absent or does not begin
  with a number), and a date field holds the time value of \<^verbatim>\<open>new Date\<close> in
  milliseconds (NaN for an Invalid Date). The location and vehicle fields are raw values.
\<close>

record shipment =
  pickup_location :: jsval
  delivery_location :: jsval
  weight :: jsnum
  preferred_date :: jsnum
  vehicle_type_preferred :: jsval

record trip =
  id' :: nat
  carrier_id :: nat
  origin :: jsval
  destination :: jsval
  capacity :: jsnum
  travel_date :: jsnum
  vehicle_type :: jsval
  status :: jsstring

section \<open>The four sub-scores\<close>

definition calculateLocationScore :: "shipment \<Rightarrow> trip \<Rightarrow> js_error + real" where
  "calculateLocationScore s t =
     (case locationSimilarity (pickup_location s) (origin t) of
        Inl e \<Rightarrow> Inl e
      | Inr pickupMatch \<Rightarrow>
          (case locationSimilarity (delivery_location s) (destination t) of
             Inl e \<Rightarrow> Inl e
           | Inr deliveryMatch \<Rightarrow> Inr ((pickupMatch + deliveryMatch) / 2)))"

definition calculateCapacityScore :: "shipment \<Rightarrow> trip \<Rightarrow> real" where
  "calculateCapacityScore s t =
     (let shipmentWeight = or_zero (weight s);
          availableCapacity = or_zero (capacity t)
      in if js_num_eq availableCapacity (Fin 0) then 0
         else
           let utilization = js_div shipmentWeight availableCapacity
           in if js_ge utilization (Fin 0.7) \<and> js_le utilization (Fin 0.9) then 1.0
              else if js_ge utilization (Fin 0.5) \<and> js_le utilization (Fin 1.0) then 0.8
              else if js_ge utilization (Fin 0.3) \<and> js_le utilization (Fin 1.2) then 0.6
              else if js_gt utilization (Fin 1.2) then 0
              else 0.4)"

text \<open>\<^verbatim>\<open>Math.abs((shipmentDate - tripDate) / (1000 * 60 * 60 * 24))\<close>\<close>

definition diffDays :: "shipment \<Rightarrow> trip \<Rightarrow> jsnum" where
  "diffDays s t =
     js_abs (js_div (js_sub (preferred_date s) (travel_date t)) (Fin (1000 * 60 * 60 * 24)))"

definition calculateDateScore :: "shipment \<Rightarrow> trip \<Rightarrow> real" where
  "calculateDateScore s t =
     (let d = diffDays s t
      in if js_num_eq d (Fin 0) then 1.0
         else if js_le d (Fin 1) then 0.9
         else if js_le d (Fin 3) then 0.7
         else if js_le d (Fin 7) then 0.5
         else if js_le d (Fin 14) then 0.3
         else 0)"

text \<open>
  \<^verbatim>\<open>similarTypes[shipmentType]\<close> is a property read on an object literal. The three own
  keys give their arrays. The names that every object inherits from
  \<^verbatim>\<open>Object.prototype\<close> give a function (or, for \<^verbatim>\<open>__proto__\<close>, the prototype), which is
  neither null nor undefined and has no \<^verbatim>\<open>includes\<close>: the optional call
  \<^verbatim>\<open>?.includes(vehicleType)\<close> then raises a TypeError. Any other key gives undefined
  and the optional chain yields undefined. A key that is not a string is converted to
  one; no number or boolean prints as one of these names.
\<close>

datatype property = Absent | OwnArray "jsstring list" | Inherited

definition object_prototype_names :: "jsstring list" where
  "object_prototype_names = map ascii
     [''constructor'', ''hasOwnProperty'', ''isPrototypeOf'', ''propertyIsEnumerable'',
      ''toLocaleString'', ''toString'', ''valueOf'', ''__proto__'',
      ''__defineGetter__'', ''__defineSetter__'', ''__lookupGetter__'', ''__lookupSetter__'']"

definition similarTypes :: "jsval \<Rightarrow> property" where
  "similarTypes key =
     (case key of
        JStr k \<Rightarrow>
          if k = ascii ''pickup'' then OwnArray [ascii ''van'', ascii ''truck'']
          else if k = ascii ''van'' then OwnArray [ascii ''pickup'', ascii ''truck'']
          else if k = ascii ''truck'' then OwnArray [ascii ''van'', ascii ''pickup'']
          else if k \<in> set object_prototype_names then Inherited
          else Absent
      | _ \<Rightarrow> Absent)"

definition calculateVehicleScore :: "shipment \<Rightarrow> trip \<Rightarrow> js_error + real" where
  "calculateVehicleScore s t =
     (let shipmentType = js_or (vehicle_type_preferred s) (JStr (ascii ''any''));
          vehicleType = js_or (vehicle_type t) (JStr (ascii ''any''))
      in if strict_eq shipmentType (JStr (ascii ''any'')) \<or>
            strict_eq vehicleType (JStr (ascii ''any'')) then Inr 1.0
         else if strict_eq shipmentType vehicleType then Inr 1.0
         else case similarTypes shipmentType of
                Inherited \<Rightarrow> Inl TypeError
              | OwnArray similar \<Rightarrow>
                  if vehicleType \<in> set (map JStr similar) then Inr 0.7 else Inr 0.3
              | Absent \<Rightarrow> Inr 0.3)"

section \<open>The composite score\<close>

definition calculateMatchScore :: "shipment \<Rightarrow> trip \<Rightarrow> js_error + real" where
  "calculateMatchScore s t =
     (case calculateLocationScore s t of
        Inl e \<Rightarrow> Inl e
      | Inr locationScore \<Rightarrow>
          let capacityScore = calculateCapacityScore s t;
              dateScore = calculateDateScore s t
          in case calculateVehicleScore s t of
               Inl e \<Rightarrow> Inl e
             | Inr vehicleScore \<Rightarrow>
                 Inr (min 100 (max 0
                   (0 + locationScore * 40 + capacityScore * 30 + dateScore * 20
                      + vehicleScore * 10))))"

section \<open>Reasons\<close>

text \<open>
  The reasons are fixed Arabic sentences in the source; each is a constructor here, in
  the order the source pushes them: pickup location matches, delivery location matches,
  capacity fits exactly, capacity fits, date matches exactly, only \<open>d\<close> days apart (the
  one sentence built from a number), vehicle type matches.
\<close>

datatype reason =
    PickupMatches
  | DeliveryMatches
  | CapacityIdeal
  | CapacityFits
  | DateExact
  | DaysApart jsnum
  | VehicleMatches

definition getMatchReasons :: "shipment \<Rightarrow> trip \<Rightarrow> js_error + reason list" where
  "getMatchReasons s t =
     (case locationSimilarity (pickup_location s) (origin t) of
        Inl e \<Rightarrow> Inl e
      | Inr pickupMatch \<Rightarrow>
          (case locationSimilarity (delivery_location s) (destination t) of
             Inl e \<Rightarrow> Inl e
           | Inr deliveryMatch \<Rightarrow>
               let shipmentWeight = or_zero (weight s);
                   availableCapacity = or_zero (capacity t);
                   utilization = js_div shipmentWeight availableCapacity;
                   d = diffDays s t;
                   shipmentType = js_or (vehicle_type_preferred s) (JStr (ascii ''any''));
                   vehicleType = js_or (vehicle_type t) (JStr (ascii ''any''))
               in Inr
                 ((if pickupMatch \<ge> 0.8 then [PickupMatches] else []) @
                  (if deliveryMatch \<ge> 0.8 then [DeliveryMatches] else []) @
                  (if js_ge utilization (Fin 0.7) \<and> js_le utilization (Fin 0.9)
                   then [CapacityIdeal]
                   else if js_ge utilization (Fin 0.5) \<and> js_le utilization (Fin 1.0)
                   then [CapacityFits] else []) @
                  (if js_num_eq d (Fin 0) then [DateExact]
                   else if js_le d (Fin 3) then [DaysApart d] else []) @
                  (if \<not> strict_eq shipmentType (JStr (ascii ''any'')) \<and>
                      \<not> strict_eq vehicleType (JStr (ascii ''any'')) \<and>
                      strict_eq shipmentType vehicleType
                   then [VehicleMatches] else []))))"

section \<open>The backend\<close>

text \<open>
  The matcher talks to a Supabase client. Its tables are lists of rows in the order the
  backend returns them. \<open>fault\<close> gives, per table name, the error object with which a
  request on that table is answered while the backend cannot serve it; \<open>rejects\<close> is
  the backend's own check of a row to insert (constraints, row security).
\<close>

record shipper =
  shipper_id :: nat
  user_id :: nat

text \<open>A row of \<^verbatim>\<open>contact_requests\<close>; the fields of the source carry the prefix \<open>req_\<close>.\<close>

record contact_request =
  req_shipper_id :: nat
  req_carrier_id :: nat
  req_shipment_id :: nat
  req_trip_id :: nat
  req_message :: jsstring
  req_status :: jsstring
  req_created_at :: jsstring

record backend =
  fault :: "jsstring \<Rightarrow> js_error option"
  trips :: "trip list"
  shippers :: "shipper list"
  contact_requests :: "contact_request list"
  rejects :: "contact_request \<Rightarrow> js_error option"

text \<open>
  \<^verbatim>\<open>.single()\<close> answers with the one row selected, and with the error of code
  \<^verbatim>\<open>PGRST116\<close> when the selection has no row or several; the session manager of this
  repository calls that code the "not found error".
\<close>

definition not_single_row :: js_error where
  "not_single_row =
     PostgrestError (ascii ''PGRST116'')
       (ascii ''JSON object requested, multiple (or no) rows returned'')"

definition single :: "backend \<Rightarrow> jsstring \<Rightarrow> 'r list \<Rightarrow> js_error + 'r" where
  "single b table rows =
     (case fault b table of
        Some e \<Rightarrow> Inl e
      | None \<Rightarrow> (case rows of [r] \<Rightarrow> Inr r | _ \<Rightarrow> Inl not_single_row))"

text \<open>
  The query of \<^verbatim>\<open>findMatchingTrips\<close>: the rows of \<^verbatim>\<open>trips\<close> with status
  \<^verbatim>\<open>'active'\<close> and a travel date on or after \<open>today\<close>, the time value of the current
  UTC day.
\<close>

definition eligible :: "jsnum \<Rightarrow> trip \<Rightarrow> bool" where
  "eligible today t \<longleftrightarrow> status t = ascii ''active'' \<and> js_ge (travel_date t) today"

definition query_active_trips :: "backend \<Rightarrow> jsnum \<Rightarrow> js_error + trip list" where
  "query_active_trips b today =
     (case fault b (ascii ''trips'') of
        Some e \<Rightarrow> Inl e
      | None \<Rightarrow> Inr (filter (eligible today) (trips b)))"

definition insert_contact_request :: "backend \<Rightarrow> contact_request \<Rightarrow> js_error + backend" where
  "insert_contact_request b r =
     (case fault b (ascii ''contact_requests'') of
        Some e \<Rightarrow> Inl e
      | None \<Rightarrow>
          (case rejects b r of
             Some e \<Rightarrow> Inl e
           | None \<Rightarrow> Inr (b\<lparr>contact_requests := contact_requests b @ [r]\<rparr>)))"

section \<open>Matching\<close>

record match =
  trip :: trip
  score :: real
  reasons :: "reason list"

text \<open>
  \<^verbatim>\<open>Array.prototype.sort\<close> with a comparator. The language requires the sort to be
  stable; with a comparator that orders its inputs consistently the result is the one of
  a stable insertion sort, which places \<open>a\<close> before \<open>b\<close> when \<open>cmp a b \<le> 0\<close>.
\<close>

fun insert_sorted :: "('a \<Rightarrow> 'a \<Rightarrow> real) \<Rightarrow> 'a \<Rightarrow> 'a list \<Rightarrow> 'a list" where
  "insert_sorted cmp a [] = [a]"
| "insert_sorted cmp a (b # bs) =
     (if cmp a b \<le> 0 then a # b # bs else b # insert_sorted cmp a bs)"

fun array_sort :: "('a \<Rightarrow> 'a \<Rightarrow> real) \<Rightarrow> 'a list \<Rightarrow> 'a list" where
  "array_sort cmp [] = []"
| "array_sort cmp (a # as) = insert_sorted cmp a (array_sort cmp as)"

text \<open>The \<^verbatim>\<open>for (const trip of trips)\<close> loop, with \<open>matches\<close> as its accumulator.\<close>

fun score_trips :: "shipment \<Rightarrow> trip list \<Rightarrow> match list \<Rightarrow> js_error + match list" where
  "score_trips s [] matches = Inr matches"
| "score_trips s (t # ts) matches =
     (case calculateMatchScore s t of
        Inl e \<Rightarrow> Inl e
      | Inr matchScore \<Rightarrow>
          if matchScore > 0 then
            (case getMatchReasons s t of
               Inl e \<Rightarrow> Inl e
             | Inr rs \<Rightarrow>
                 score_trips s ts
                   (matches @ [\<lparr>trip = t, score = matchScore, reasons = rs\<rparr>]))
          else score_trips s ts matches)"

text \<open>
  The result is the returned array together with what \<^verbatim>\<open>console.error\<close> received. The
  \<^verbatim>\<open>catch\<close> block takes every error raised in the \<^verbatim>\<open>try\<close> block, the one of the query
  and one raised while scoring alike.
\<close>

definition findMatchingTrips ::
  "backend \<Rightarrow> jsnum \<Rightarrow> shipment \<Rightarrow> match list \<times> js_error list" where
  "findMatchingTrips b today s =
     (case query_active_trips b today of
        Inl error \<Rightarrow> ([], [error])
      | Inr ts \<Rightarrow>
          (case score_trips s ts [] of
             Inl error \<Rightarrow> ([], [error])
           | Inr matches \<Rightarrow> (array_sort (\<lambda>a b. score b - score a) matches, [])))"

section \<open>Contact requests\<close>

text \<open>
  \<^verbatim>\<open>error.message\<close>. A TypeError's text is the engine's; \<^verbatim>\<open>sendContactRequest\<close> raises
  none.
\<close>

fun error_message :: "js_error \<Rightarrow> jsstring" where
  "error_message (Error m) = m"
| "error_message (PostgrestError code m) = m"
| "error_message TypeError = []"

datatype send_result = Success | Failure jsstring

text \<open>
  The \<^verbatim>\<open>try\<close> block: the signed-in user (the id of \<^verbatim>\<open>getCurrentUser()\<close>, if any), the
  shipper row of that user, the trip row, then the insert. \<open>now\<close> is the timestamp
  \<^verbatim>\<open>new Date().toISOString()\<close>.
\<close>

definition contact_attempt ::
  "nat option \<Rightarrow> backend \<Rightarrow> jsstring \<Rightarrow> nat \<Rightarrow> nat \<Rightarrow> jsstring \<Rightarrow> js_error + backend" where
  "contact_attempt user b now shipmentId tripId message =
     (case user of
        None \<Rightarrow> Inl (Error (ascii ''User not logged in''))
      | Some uid \<Rightarrow>
          (case single b (ascii ''shippers'') (filter (\<lambda>r. user_id r = uid) (shippers b)) of
             Inl shipperError \<Rightarrow> Inl shipperError
           | Inr shipper \<Rightarrow>
               (case single b (ascii ''trips'') (filter (\<lambda>r. id' r = tripId) (trips b)) of
                  Inl tripError \<Rightarrow> Inl tripError
                | Inr trip_row \<Rightarrow>
                    insert_contact_request b
                      \<lparr>req_shipper_id = shipper_id shipper,
                       req_carrier_id = carrier_id trip_row,
                       req_shipment_id = shipmentId,
                       req_trip_id = tripId,
                       req_message = message,
                       req_status = ascii ''pending'',
                       req_created_at = now\<rparr>)))"

definition sendContactRequest ::
  "nat option \<Rightarrow> backend \<Rightarrow> jsstring \<Rightarrow> nat \<Rightarrow> nat \<Rightarrow> jsstring
     \<Rightarrow> send_result \<times> backend \<times> js_error list" where
  "sendContactRequest user b now shipmentId tripId message =
     (case contact_attempt user b now shipmentId tripId message of
        Inl error \<Rightarrow> (Failure (error_message error), b, [error])
      | Inr b' \<Rightarrow> (Success, b', []))"

section \<open>The cascade as the specification words it\<close>

text \<open>
  The specification lists the rules of location similarity with "both strings reference
  the same entry of the gazetteer" as the rule worth 0.9. \<open>claimed_rules\<close> follows
  these words: some city of the gazetteer occurs in both cleaned strings. The source
  instead compares the first city of the gazetteer found in each (\<open>similarity_rules\<close>).
\<close>

definition same_city_contained :: "jsstring \<Rightarrow> jsstring \<Rightarrow> bool" where
  "same_city_contained clean1 clean2 =
     list_ex (\<lambda>city. str_includes clean1 city \<and> str_includes clean2 city) cities"

definition claimed_rules :: "jsstring \<Rightarrow> jsstring \<Rightarrow> real" where
  "claimed_rules clean1 clean2 =
     (if clean1 = clean2 then 1.0
      else if str_includes clean1 clean2 \<or> str_includes clean2 clean1 then 0.8
      else if same_city_contained clean1 clean2 then 0.9
      else if region_shared clean1 clean2 then 0.6
      else 0.2)"

section \<open>Rows with the field types of the data model\<close>

text \<open>
  The data model types a location as text and a vehicle type as one of four names. The
  source relies on it: it calls string methods on a location that is not falsy, and reads
  the preferred vehicle type as a property name.
\<close>

definition text_or_missing :: "jsval \<Rightarrow> bool" where
  "text_or_missing v = (case v of JStr s \<Rightarrow> True | _ \<Rightarrow> falsy v)"

definition plain_key :: "jsval \<Rightarrow> bool" where
  "plain_key v = (case v of JStr k \<Rightarrow> k \<notin> set object_prototype_names | _ \<Rightarrow> True)"

definition well_formed :: "shipment \<Rightarrow> trip \<Rightarrow> bool" where
  "well_formed s t \<longleftrightarrow>
     text_or_missing (pickup_location s) \<and> text_or_missing (origin t) \<and>
     text_or_missing (delivery_location s) \<and> text_or_missing (destination t) \<and>
     plain_key (vehicle_type_preferred s)"

section \<open>Example rows\<close>

text \<open>
  The scenario of the specification: 800 kg from Riyadh to Jeddah on 2024-06-10 by
  truck, and a trip of 1000 kg capacity on the same route, day and vehicle.
\<close>

definition june10 :: jsnum where "june10 = Fin 1717977600000"

definition example_shipment :: shipment where
  "example_shipment =
     \<lparr>pickup_location = JStr Riyadh, delivery_location = JStr Jeddah,
      weight = Fin 800, preferred_date = june10,
      vehicle_type_preferred = JStr (ascii ''truck'')\<rparr>"

definition example_trip :: trip where
  "example_trip =
     \<lparr>id' = 1, carrier_id = 7, origin = JStr Riyadh, destination = JStr Jeddah,
      capacity = Fin 1000, travel_date = june10,
      vehicle_type = JStr (ascii ''truck''), status = ascii ''active''\<rparr>"

definition example_backend :: backend where
  "example_backend =
     \<lparr>fault = (\<lambda>table. None), trips = [example_trip],
      shippers = [\<lparr>shipper_id = 3, user_id = 11\<rparr>],
      contact_requests = [], rejects = (\<lambda>r. None)\<rparr>"

definition june12 :: jsnum where "june12 = Fin 1718150400000"

text \<open>A shipment with no pickup location, no weight, no date and no vehicle preference.\<close>

definition garbled_shipment :: shipment where
  "garbled_shipment =
     \<lparr>pickup_location = JNull, delivery_location = JStr Jeddah,
      weight = NaN, preferred_date = NaN, vehicle_type_preferred = JUndefined\<rparr>"

text \<open>
  A backend with four trips: two on 2024-06-12, the example trip between them, and one
  that is not active.
\<close>

definition later_trip :: trip where
  "later_trip = example_trip\<lparr>id' := 2, travel_date := june12\<rparr>"

definition later_trip' :: trip where
  "later_trip' = example_trip\<lparr>id' := 3, travel_date := june12\<rparr>"

definition inactive_trip :: trip where
  "inactive_trip = example_trip\<lparr>id' := 4, status := ascii ''inactive''\<rparr>"

definition busy_backend :: backend where
  "busy_backend =
     example_backend\<lparr>trips := [later_trip, example_trip, inactive_trip, later_trip']\<rparr>"

text \<open>A backend that answers no request: the client reports a failed fetch.\<close>

definition fetch_failure :: js_error where
  "fetch_failure = PostgrestError [] (ascii ''TypeError: Failed to fetch'')"

definition failing_backend :: backend where
  "failing_backend = example_backend\<lparr>fault := (\<lambda>table. Some fetch_failure)\<rparr>"

text \<open>Two locations that each name two cities, separated by a space.\<close>

definition riyadh_jeddah :: jsstring where "riyadh_jeddah = Riyadh @ [0x20] @ Jeddah"

definition jeddah_makkah :: jsstring where "jeddah_makkah = Jeddah @ [0x20] @ Makkah"

section \<open>Calendar days\<close>

text \<open>
  The specification measures the distance of two dates in calendar days. A time value
  falls on the UTC day \<open>utc_day\<close>, counted from 1970-01-01, and the calendar-day
  difference of two time values is the distance of their days. The source instead divides
  the difference of the time values by the length of a day (\<open>diffDays\<close>).
\<close>

definition utc_day :: "real \<Rightarrow> int" where
  "utc_day ms = floor (ms / 86400000)"

definition calendar_day_difference :: "jsnum \<Rightarrow> jsnum \<Rightarrow> jsnum" where
  "calendar_day_difference a b =
     (case (a, b) of
        (Fin p, Fin q) \<Rightarrow> Fin (of_int \<bar>utc_day p - utc_day q\<bar>)
      | _ \<Rightarrow> NaN)"

text \<open>Noon of 2024-06-10, and one millisecond after the start of 2024-06-11.\<close>

definition june10_noon :: jsnum where "june10_noon = Fin 1718020800000"

definition june11_and_1ms :: jsnum where "june11_and_1ms = Fin 1718064000001"

section \<open>More example rows\<close>

text \<open>A trip whose origin is the number 5, and a table that holds it after the example trip.\<close>

definition numeric_origin_trip :: trip where
  "numeric_origin_trip = example_trip\<lparr>id' := 5, origin := JNum (Fin 5)\<rparr>"

definition mixed_backend :: backend where
  "mixed_backend = example_backend\<lparr>trips := [example_trip, numeric_origin_trip]\<rparr>"

section \<open>Facts about location similarity\<close>

lemmas city_defs = Riyadh_def Jeddah_def Makkah_def Madinah_def Dammam_def Khobar_def
  Abha_def Tabuk_def Hail_def Qassim_def Ahsa_def Jazan_def Najran_def Jawf_def

lemma region_shared_commute: "region_shared a b = region_shared b a"
  unfolding region_shared_def
  by (rule arg_cong2[where f = list_ex]) (auto simp: fun_eq_iff)

lemma similarity_rules_commute: "similarity_rules a b = similarity_rules b a"
proof (cases "a = b")
  case True
  then show ?thesis by simp
next
  case False
  then have "b \<noteq> a" by blast
  with False show ?thesis
    unfolding similarity_rules_def Let_def
    by (auto simp: region_shared_commute[of a b])
qed

lemma clean_error: "clean v = Inl e \<Longrightarrow> e = TypeError"
  by (cases v) (simp_all add: clean_def)

text \<open>
  C7. Location similarity is symmetric: \<^verbatim>\<open>locationSimilarity(a, b)\<close> and
  \<^verbatim>\<open>locationSimilarity(b, a)\<close> are the same value for every pair of field values, and
  where one call raises the other raises the same error.
\<close>

theorem locationSimilarity_symmetric:
  "locationSimilarity a b = locationSimilarity b a"
proof (cases "falsy a \<or> falsy b")
  case True
  then show ?thesis by (auto simp: locationSimilarity_def)
next
  case False
  show ?thesis
  proof (cases "clean a")
    case (Inl e)
    with False show ?thesis
      by (auto simp: locationSimilarity_def dest: clean_error split: sum.splits)
  next
    case (Inr ca)
    with False show ?thesis
      using similarity_rules_commute
      by (auto simp: locationSimilarity_def dest: clean_error split: sum.splits)
  qed
qed

lemma riyadh_in_riyadh_jeddah:
  "locationSimilarity (JStr Riyadh) (JStr riyadh_jeddah) = Inr 0.8"
  by (simp add: locationSimilarity_def clean_def similarity_rules_def trim_def toLowerCase_def
      lower_unit_def white_space_def riyadh_jeddah_def city_defs)

theorem locationSimilarity_symmetric_witness:
  "locationSimilarity (JStr riyadh_jeddah) (JStr Riyadh) = Inr 0.8"
  using locationSimilarity_symmetric[of "JStr riyadh_jeddah" "JStr Riyadh"]
  by (simp add: riyadh_in_riyadh_jeddah)

text \<open>
  A string of blanks is not falsy, so it passes the first test; cleaned it is the empty
  string, which every string contains, and the containment rule gives 0.8.
\<close>

lemma blank_location_is_contained:
  "locationSimilarity (JStr [0x20, 0x20]) (JStr Riyadh) = Inr 0.8"
  by (simp add: locationSimilarity_def clean_def similarity_rules_def trim_def toLowerCase_def
      lower_unit_def white_space_def city_defs)

section \<open>Ranges of the sub-scores\<close>

lemma similarity_rules_range: "0 \<le> similarity_rules a b \<and> similarity_rules a b \<le> 1"
  by (simp add: similarity_rules_def Let_def)

lemma locationSimilarity_range:
  "locationSimilarity a b = Inr x \<Longrightarrow> 0 \<le> x \<and> x \<le> 1"
  using similarity_rules_range
  by (auto simp: locationSimilarity_def split: if_splits sum.splits)

lemma calculateLocationScore_range:
  "calculateLocationScore s t = Inr x \<Longrightarrow> 0 \<le> x \<and> x \<le> 1"
  by (auto simp: calculateLocationScore_def split: sum.splits
      dest!: locationSimilarity_range)

lemma calculateCapacityScore_range:
  "0 \<le> calculateCapacityScore s t \<and> calculateCapacityScore s t \<le> 1"
  by (simp add: calculateCapacityScore_def Let_def)

lemma calculateDateScore_range:
  "0 \<le> calculateDateScore s t \<and> calculateDateScore s t \<le> 1"
  by (simp add: calculateDateScore_def Let_def)

lemma calculateVehicleScore_values:
  "calculateVehicleScore s t = Inr v \<Longrightarrow> v = 1 \<or> v = 0.7 \<or> v = 0.3"
  by (auto simp: calculateVehicleScore_def Let_def split: if_splits property.splits)

section \<open>The example rows, evaluated\<close>

lemma example_pickup: "locationSimilarity (JStr Riyadh) (JStr Riyadh) = Inr 1"
  by (simp add: locationSimilarity_def clean_def similarity_rules_def Riyadh_def)

lemma example_delivery: "locationSimilarity (JStr Jeddah) (JStr Jeddah) = Inr 1"
  by (simp add: locationSimilarity_def clean_def similarity_rules_def Jeddah_def)

lemma example_location: "calculateLocationScore example_shipment example_trip = Inr 1"
  by (simp add: calculateLocationScore_def example_shipment_def example_trip_def
      example_pickup example_delivery)

lemma example_vehicle: "calculateVehicleScore example_shipment example_trip = Inr 1"
  by (simp add: calculateVehicleScore_def example_shipment_def example_trip_def
      js_or_def strict_eq_def ascii_def)

lemma example_capacity: "calculateCapacityScore example_shipment example_trip = 1"
  by (simp add: calculateCapacityScore_def example_shipment_def example_trip_def
      or_zero_def js_num_eq_def js_ge_def)

lemma example_days: "diffDays example_shipment example_trip = Fin 0"
  by (simp add: diffDays_def example_shipment_def example_trip_def june10_def)

lemma example_date: "calculateDateScore example_shipment example_trip = 1"
  by (simp add: calculateDateScore_def example_days js_num_eq_def)

section \<open>The composite score\<close>

text \<open>
  C2. Whenever the location and vehicle sub-scores \<open>L\<close> and \<open>V\<close> of a pair are values,
  \<^verbatim>\<open>calculateMatchScore\<close> returns \<open>40 L + 30 C + 20 D + 10 V\<close> with \<open>C\<close> and \<open>D\<close> the
  capacity and date sub-scores; the four sub-scores lie in \<open>[0, 1]\<close>, the clamp to
  \<open>[0, 100]\<close> changes nothing, and the composite lies in \<open>[0, 100]\<close>.
\<close>

theorem calculateMatchScore_weighted_sum:
  assumes L: "calculateLocationScore s t = Inr L"
    and V: "calculateVehicleScore s t = Inr V"
  shows "calculateMatchScore s t =
           Inr (min 100 (max 0 (40 * L + 30 * calculateCapacityScore s t
                                 + 20 * calculateDateScore s t + 10 * V))) \<and>
         calculateMatchScore s t =
           Inr (40 * L + 30 * calculateCapacityScore s t
                 + 20 * calculateDateScore s t + 10 * V) \<and>
         0 \<le> L \<and> L \<le> 1 \<and>
         0 \<le> calculateCapacityScore s t \<and> calculateCapacityScore s t \<le> 1 \<and>
         0 \<le> calculateDateScore s t \<and> calculateDateScore s t \<le> 1 \<and>
         0 \<le> V \<and> V \<le> 1 \<and>
         0 \<le> 40 * L + 30 * calculateCapacityScore s t
                 + 20 * calculateDateScore s t + 10 * V \<and>
         40 * L + 30 * calculateCapacityScore s t
           + 20 * calculateDateScore s t + 10 * V \<le> 100"
proof -
  define C where "C = calculateCapacityScore s t"
  define D where "D = calculateDateScore s t"
  have l: "0 \<le> L \<and> L \<le> 1"
    using calculateLocationScore_range[OF L] .
  have c: "0 \<le> C \<and> C \<le> 1"
    unfolding C_def by (rule calculateCapacityScore_range)
  have d: "0 \<le> D \<and> D \<le> 1"
    unfolding D_def by (rule calculateDateScore_range)
  have v: "0 \<le> V \<and> V \<le> 1"
    using calculateVehicleScore_values[OF V] by auto
  have b: "0 \<le> 40 * L + 30 * C + 20 * D + 10 * V \<and>
           40 * L + 30 * C + 20 * D + 10 * V \<le> 100"
    using l c d v by simp
  have m: "calculateMatchScore s t =
             Inr (min 100 (max 0 (40 * L + 30 * C + 20 * D + 10 * V)))"
    using L V by (simp add: calculateMatchScore_def Let_def C_def D_def algebra_simps)
  have e: "calculateMatchScore s t = Inr (40 * L + 30 * C + 20 * D + 10 * V)"
    using m b by (simp add: min_def max_def)
  from l c d v b m e show ?thesis
    unfolding C_def D_def by blast
qed

theorem calculateMatchScore_weighted_sum_witness:
  "calculateLocationScore example_shipment example_trip = Inr 1 \<and>
   calculateVehicleScore example_shipment example_trip = Inr 1 \<and>
   calculateMatchScore example_shipment example_trip = Inr 100"
  using calculateMatchScore_weighted_sum[OF example_location example_vehicle]
  by (simp add: example_location example_vehicle example_capacity example_date)

section \<open>The capacity sub-score\<close>

text \<open>
  C3, as the specification states it, fails: a negative capacity is not caught by the
  guard \<^verbatim>\<open>availableCapacity === 0\<close>. With 800 kg against a capacity of -1000 the
  utilization is -0.8, no band applies and the score is 0.4.
\<close>

theorem negative_capacity_counterexample:
  "js_le (capacity (example_trip\<lparr>capacity := Fin (- 1000)\<rparr>)) (Fin 0) \<and>
   calculateCapacityScore example_shipment (example_trip\<lparr>capacity := Fin (- 1000)\<rparr>) = 0.4"
  by (simp add: calculateCapacityScore_def example_shipment_def example_trip_def
      or_zero_def js_num_eq_def js_ge_def)

text \<open>
  C3, amended. When the capacity of the trip is 0, or is absent or not a number (which
  \<^verbatim>\<open>|| 0\<close> turns into 0), the capacity sub-score is 0 whatever the weight.
\<close>

theorem capacity_zero_scores_zero:
  "capacity t = Fin 0 \<or> capacity t = NaN \<Longrightarrow> calculateCapacityScore s t = 0"
  by (auto simp: calculateCapacityScore_def or_zero_def js_num_eq_def)

theorem capacity_zero_scores_zero_witness:
  "(capacity (example_trip\<lparr>capacity := NaN\<rparr>) = Fin 0 \<or>
    capacity (example_trip\<lparr>capacity := NaN\<rparr>) = NaN) \<and>
   calculateCapacityScore example_shipment (example_trip\<lparr>capacity := NaN\<rparr>) = 0"
  using capacity_zero_scores_zero[of "example_trip\<lparr>capacity := NaN\<rparr>" example_shipment]
  by simp

text \<open>An absent or non-numeric weight or capacity counts as 0.\<close>

lemma missing_weight_counts_as_zero:
  "calculateCapacityScore (s\<lparr>weight := NaN\<rparr>) t = calculateCapacityScore (s\<lparr>weight := Fin 0\<rparr>) t"
  by (simp add: calculateCapacityScore_def or_zero_def)

lemma missing_capacity_counts_as_zero:
  "calculateCapacityScore s (t\<lparr>capacity := NaN\<rparr>) =
   calculateCapacityScore s (t\<lparr>capacity := Fin 0\<rparr>)"
  by (simp add: calculateCapacityScore_def or_zero_def)

text \<open>
  The second scenario of the specification: the same shipment against a capacity of 100
  has utilization 8, capacity sub-score 0 and composite score 70.
\<close>

lemma small_trip_capacity:
  "calculateCapacityScore example_shipment (example_trip\<lparr>capacity := Fin 100\<rparr>) = 0"
  by (simp add: calculateCapacityScore_def example_shipment_def example_trip_def
      or_zero_def js_num_eq_def js_ge_def)

lemma small_trip_score:
  "calculateMatchScore example_shipment (example_trip\<lparr>capacity := Fin 100\<rparr>) = Inr 70"
  by (simp add: calculateMatchScore_def calculateLocationScore_def calculateCapacityScore_def
      calculateDateScore_def calculateVehicleScore_def diffDays_def
      example_shipment_def example_trip_def june10_def
      example_pickup example_delivery or_zero_def js_num_eq_def js_ge_def js_or_def
      strict_eq_def ascii_def)

section \<open>The date sub-score\<close>

lemma diffDays_not_NInf: "diffDays s t \<noteq> NInf"
  unfolding diffDays_def
  by (cases "js_div (js_sub (preferred_date s) (travel_date t)) (Fin (1000 * 60 * 60 * 24))")
    simp_all

lemma diffDays_nonneg: "diffDays s t = Fin x \<Longrightarrow> 0 \<le> x"
  unfolding diffDays_def
  by (cases "js_div (js_sub (preferred_date s) (travel_date t)) (Fin (1000 * 60 * 60 * 24))")
    auto

lemma date_score_of_days:
  "diffDays s t = Fin x \<Longrightarrow>
   calculateDateScore s t =
     (if x = 0 then 1 else if x \<le> 1 then 0.9 else if x \<le> 3 then 0.7
      else if x \<le> 7 then 0.5 else if x \<le> 14 then 0.3 else 0)"
  by (simp add: calculateDateScore_def js_num_eq_def Let_def)

lemma date_score_not_finite:
  "diffDays s t = NaN \<or> diffDays s t = PInf \<Longrightarrow> calculateDateScore s t = 0"
  by (auto simp: calculateDateScore_def js_num_eq_def)

lemma date_score_one_iff: "calculateDateScore s t = 1 \<longleftrightarrow> diffDays s t = Fin 0"
  by (cases "diffDays s t")
    (auto simp: calculateDateScore_def js_num_eq_def Let_def split: if_splits)

lemma date_score_antimono:
  assumes "js_le (diffDays s t) (diffDays s' t')"
  shows "calculateDateScore s' t' \<le> calculateDateScore s t"
proof (cases "diffDays s t")
  case (Fin x)
  note x = this
  show ?thesis
  proof (cases "diffDays s' t'")
    case (Fin y)
    with x assms have "x \<le> y" by simp
    moreover have "0 \<le> x" using diffDays_nonneg[OF x] .
    ultimately show ?thesis
      unfolding date_score_of_days[OF x] date_score_of_days[OF Fin] by auto
  next
    case NaN
    with x assms show ?thesis by simp
  next
    case PInf
    then have "calculateDateScore s' t' = 0"
      using date_score_not_finite by blast
    then show ?thesis
      using calculateDateScore_range[of s t] by simp
  next
    case NInf
    then show ?thesis using diffDays_not_NInf by blast
  qed
next
  case NaN
  with assms show ?thesis by simp
next
  case PInf
  with assms have "diffDays s' t' = PInf"
    by (cases "diffDays s' t'") simp_all
  with PInf show ?thesis
    using date_score_not_finite by simp
next
  case NInf
  then show ?thesis using diffDays_not_NInf by blast
qed

lemma diffDays_of_dates:
  "preferred_date s = Fin p \<Longrightarrow> travel_date t = Fin q \<Longrightarrow>
   diffDays s t = Fin (\<bar>p - q\<bar> / 86400000)"
  by (simp add: diffDays_def)

lemma utc_day_whole: "utc_day (86400000 * of_int m) = m"
  by (simp add: utc_day_def)

lemma diffDays_whole_days:
  assumes "preferred_date s = Fin (86400000 * of_int m)"
    and "travel_date t = Fin (86400000 * of_int n)"
  shows "diffDays s t = calendar_day_difference (preferred_date s) (travel_date t)"
proof -
  have "\<bar>86400000 * real_of_int m - 86400000 * real_of_int n\<bar> / 86400000
        = real_of_int \<bar>m - n\<bar>"
  proof -
    have "86400000 * real_of_int m - 86400000 * real_of_int n = 86400000 * real_of_int (m - n)"
      by (simp add: algebra_simps)
    then have "\<bar>86400000 * real_of_int m - 86400000 * real_of_int n\<bar>
        = 86400000 * \<bar>real_of_int (m - n)\<bar>"
      by (simp only: abs_mult)
    then show ?thesis by simp
  qed
  then show ?thesis
    using assms by (simp add: diffDays_def calendar_day_difference_def utc_day_whole)
qed

text \<open>
  C8, amended. With \<open>diffDays\<close> the absolute difference of the two time values
  divided by the milliseconds of a day, a number of days that may be fractional, the
  date sub-score is 1 exactly when \<open>diffDays\<close> is 0; it is 0.9, 0.7, 0.5, 0.3 in the
  bands up to 1, 3, 7, 14 days and 0 otherwise (also when a date does not parse); a pair
  with a larger \<open>diffDays\<close> never has a larger score; and when both time values are
  whole days (date-only values), \<open>diffDays\<close> is their calendar-day difference.
\<close>

theorem calculateDateScore_bands:
  "(calculateDateScore s t = 1 \<longleftrightarrow> diffDays s t = Fin 0) \<and>
   (\<forall>x. diffDays s t = Fin x \<longrightarrow>
      calculateDateScore s t =
        (if x = 0 then 1 else if x \<le> 1 then 0.9 else if x \<le> 3 then 0.7
         else if x \<le> 7 then 0.5 else if x \<le> 14 then 0.3 else 0)) \<and>
   (diffDays s t = NaN \<or> diffDays s t = PInf \<longrightarrow> calculateDateScore s t = 0) \<and>
   (\<forall>s' t'. js_le (diffDays s t) (diffDays s' t') \<longrightarrow>
      calculateDateScore s' t' \<le> calculateDateScore s t) \<and>
   (\<forall>p q. preferred_date s = Fin p \<and> travel_date t = Fin q \<longrightarrow>
      diffDays s t = Fin (\<bar>p - q\<bar> / 86400000)) \<and>
   (\<forall>m n. preferred_date s = Fin (86400000 * of_int m) \<and>
          travel_date t = Fin (86400000 * of_int n) \<longrightarrow>
      diffDays s t = calendar_day_difference (preferred_date s) (travel_date t))"
  using date_score_one_iff[of s t] date_score_of_days[of s t]
    date_score_not_finite[of s t] date_score_antimono[of s t] diffDays_of_dates[of s _ t]
    diffDays_whole_days[of s _ t]
  by blast

lemma later_days:
  "diffDays example_shipment (example_trip\<lparr>travel_date := june12\<rparr>) = Fin 2"
  by (simp add: diffDays_def example_shipment_def example_trip_def june10_def june12_def)

lemma unparsed_days:
  "diffDays (example_shipment\<lparr>preferred_date := NaN\<rparr>) example_trip = NaN"
  by (simp add: diffDays_def example_shipment_def example_trip_def june10_def)

lemma example_calendar_days:
  "calendar_day_difference (preferred_date example_shipment)
     (travel_date (example_trip\<lparr>travel_date := june12\<rparr>)) = Fin 2"
  by (simp add: calendar_day_difference_def utc_day_def example_shipment_def june10_def
      june12_def)

theorem calculateDateScore_bands_witness:
  "diffDays example_shipment example_trip = Fin 0 \<and>
   calculateDateScore example_shipment example_trip = 1 \<and>
   preferred_date example_shipment = Fin 1717977600000 \<and>
   travel_date example_trip = Fin 1717977600000 \<and>
   js_le (diffDays example_shipment example_trip)
     (diffDays example_shipment (example_trip\<lparr>travel_date := june12\<rparr>)) \<and>
   calculateDateScore example_shipment (example_trip\<lparr>travel_date := june12\<rparr>)
     \<le> calculateDateScore example_shipment example_trip \<and>
   diffDays example_shipment (example_trip\<lparr>travel_date := june12\<rparr>) = Fin 2 \<and>
   calculateDateScore example_shipment (example_trip\<lparr>travel_date := june12\<rparr>) = 0.7 \<and>
   diffDays (example_shipment\<lparr>preferred_date := NaN\<rparr>) example_trip = NaN \<and>
   calculateDateScore (example_shipment\<lparr>preferred_date := NaN\<rparr>) example_trip = 0 \<and>
   preferred_date example_shipment = Fin (86400000 * of_int 19884) \<and>
   travel_date (example_trip\<lparr>travel_date := june12\<rparr>) = Fin (86400000 * of_int 19886) \<and>
   calendar_day_difference (preferred_date example_shipment)
     (travel_date (example_trip\<lparr>travel_date := june12\<rparr>)) = Fin 2"
proof -
  have old: "diffDays example_shipment example_trip = Fin 0 \<and>
   calculateDateScore example_shipment example_trip = 1 \<and>
   preferred_date example_shipment = Fin 1717977600000 \<and>
   travel_date example_trip = Fin 1717977600000 \<and>
   js_le (diffDays example_shipment example_trip)
     (diffDays example_shipment (example_trip\<lparr>travel_date := june12\<rparr>)) \<and>
   calculateDateScore example_shipment (example_trip\<lparr>travel_date := june12\<rparr>)
     \<le> calculateDateScore example_shipment example_trip \<and>
   diffDays example_shipment (example_trip\<lparr>travel_date := june12\<rparr>) = Fin 2 \<and>
   calculateDateScore example_shipment (example_trip\<lparr>travel_date := june12\<rparr>) = 0.7 \<and>
   diffDays (example_shipment\<lparr>preferred_date := NaN\<rparr>) example_trip = NaN \<and>
   calculateDateScore (example_shipment\<lparr>preferred_date := NaN\<rparr>) example_trip = 0"
    using calculateDateScore_bands[of example_shipment example_trip]
      calculateDateScore_bands[of example_shipment "example_trip\<lparr>travel_date := june12\<rparr>"]
      calculateDateScore_bands[of "example_shipment\<lparr>preferred_date := NaN\<rparr>" example_trip]
    by (simp add: example_days later_days unparsed_days)
      (simp add: example_shipment_def example_trip_def june10_def)
  have p: "preferred_date example_shipment = Fin (86400000 * of_int 19884)"
    by (simp add: example_shipment_def june10_def)
  have q: "travel_date (example_trip\<lparr>travel_date := june12\<rparr>) = Fin (86400000 * of_int 19886)"
    by (simp add: june12_def)
  from old p q example_calendar_days show ?thesis
    by (intro conjI) (elim conjE, assumption)+
qed

lemma noon_same_day:
  "calendar_day_difference (preferred_date example_shipment)
     (travel_date (example_trip\<lparr>travel_date := june10_noon\<rparr>)) = Fin 0"
  by (simp add: calendar_day_difference_def utc_day_def example_shipment_def june10_def
      june10_noon_def)

lemma noon_score:
  "calculateDateScore example_shipment (example_trip\<lparr>travel_date := june10_noon\<rparr>) = 0.9"
  by (simp add: calculateDateScore_def diffDays_def js_num_eq_def example_shipment_def
      example_trip_def june10_def june10_noon_def)

lemma next_day:
  "calendar_day_difference (preferred_date example_shipment)
     (travel_date (example_trip\<lparr>travel_date := june11_and_1ms\<rparr>)) = Fin 1"
  by (simp add: calendar_day_difference_def utc_day_def example_shipment_def june10_def
      june11_and_1ms_def)

lemma next_day_score:
  "calculateDateScore example_shipment (example_trip\<lparr>travel_date := june11_and_1ms\<rparr>) = 0.7"
  by (simp add: calculateDateScore_def diffDays_def js_num_eq_def example_shipment_def
      example_trip_def june10_def june11_and_1ms_def)

text \<open>
  C8, as the specification states it, fails: its \<open>diffDays\<close> is the calendar-day
  difference, and the source rounds nothing. 2024-06-10 at midnight and at noon are the
  same calendar day and score 0.9, not 1.0; 2024-06-10 at midnight and 2024-06-11 one
  millisecond after midnight are one calendar day apart and score 0.7, not 0.9.
\<close>

theorem fractional_days_counterexample:
  "calendar_day_difference (preferred_date example_shipment)
     (travel_date (example_trip\<lparr>travel_date := june10_noon\<rparr>)) = Fin 0 \<and>
   calculateDateScore example_shipment (example_trip\<lparr>travel_date := june10_noon\<rparr>) = 0.9 \<and>
   calendar_day_difference (preferred_date example_shipment)
     (travel_date (example_trip\<lparr>travel_date := june11_and_1ms\<rparr>)) = Fin 1 \<and>
   calculateDateScore example_shipment (example_trip\<lparr>travel_date := june11_and_1ms\<rparr>) = 0.7"
  using noon_same_day noon_score next_day next_day_score by (intro conjI)


section \<open>When scoring returns\<close>

lemma clean_text: "text_or_missing v \<Longrightarrow> \<not> falsy v \<Longrightarrow> \<exists>c. clean v = Inr c"
  by (cases v) (simp_all add: text_or_missing_def clean_def)

lemma locationSimilarity_total:
  assumes "text_or_missing a" and "text_or_missing b"
  shows "\<exists>x. locationSimilarity a b = Inr x"
proof (cases "falsy a \<or> falsy b")
  case True
  then show ?thesis by (auto simp: locationSimilarity_def)
next
  case False
  with assms obtain ca cb where "clean a = Inr ca" "clean b = Inr cb"
    using clean_text by blast
  with False show ?thesis by (simp add: locationSimilarity_def)
qed

lemma calculateVehicleScore_total:
  assumes "plain_key (vehicle_type_preferred s)"
  shows "\<exists>v. calculateVehicleScore s t = Inr v"
proof -
  have "similarTypes (js_or (vehicle_type_preferred s) (JStr (ascii ''any''))) \<noteq> Inherited"
    using assms
    by (cases "vehicle_type_preferred s")
      (auto simp: js_or_def similarTypes_def plain_key_def ascii_def object_prototype_names_def)
  then have "calculateVehicleScore s t = Inr 1 \<or> calculateVehicleScore s t = Inr 0.7
      \<or> calculateVehicleScore s t = Inr 0.3"
    by (auto simp: calculateVehicleScore_def Let_def split: property.splits)
  then show ?thesis by blast
qed

text \<open>
  Exactly when the two steps that can raise do so: \<^verbatim>\<open>locationSimilarity\<close> on two
  locations that are both not falsy and not both strings, \<^verbatim>\<open>calculateVehicleScore\<close> on
  a preferred type that is an inherited name and a vehicle type that is present, not
  \<^verbatim>\<open>'any'\<close> and different from it.
\<close>

lemma locationSimilarity_raises_iff:
  "locationSimilarity a b = Inl e \<longleftrightarrow>
     e = TypeError \<and> \<not> falsy a \<and> \<not> falsy b \<and> \<not> (text_or_missing a \<and> text_or_missing b)"
  by (cases a; cases b)
    (auto simp: locationSimilarity_def clean_def text_or_missing_def split: if_splits)

lemma calculateVehicleScore_raises_iff:
  "calculateVehicleScore s t = Inl e \<longleftrightarrow>
     e = TypeError \<and> \<not> plain_key (vehicle_type_preferred s) \<and>
     \<not> falsy (vehicle_type t) \<and> vehicle_type t \<noteq> JStr (ascii ''any'') \<and>
     vehicle_type t \<noteq> vehicle_type_preferred s"
proof (cases "falsy (vehicle_type_preferred s)")
  case True
  then have "plain_key (vehicle_type_preferred s)"
    by (cases "vehicle_type_preferred s") (auto simp: plain_key_def object_prototype_names_def ascii_def)
  with True show ?thesis
    by (auto simp: calculateVehicleScore_def js_or_def strict_eq_def Let_def)
next
  case False
  note pref = this
  show ?thesis
  proof (cases "plain_key (vehicle_type_preferred s)")
    case True
    then show ?thesis
      using calculateVehicleScore_total[OF True, of t] by auto
  next
    case False
    then obtain k where k: "vehicle_type_preferred s = JStr k" "k \<in> set object_prototype_names"
      by (cases "vehicle_type_preferred s") (auto simp: plain_key_def)
    then have inh: "similarTypes (JStr k) = Inherited"
      by (auto simp: similarTypes_def object_prototype_names_def ascii_def)
    have kany: "k \<noteq> ascii ''any''"
      using k(2) by (auto simp: object_prototype_names_def ascii_def)
    show ?thesis
      using False pref k(1) inh kany
      by (cases "falsy (vehicle_type t)")
        (auto simp: calculateVehicleScore_def js_or_def strict_eq_def Let_def ascii_def)
  qed
qed
text \<open>
  C10, amended. On every shipment and trip whose location fields are strings or falsy
  (absent, null, empty) and whose preferred vehicle type is not a name inherited from
  \<^verbatim>\<open>Object.prototype\<close>, \<^verbatim>\<open>calculateMatchScore\<close> and \<^verbatim>\<open>getMatchReasons\<close> return a
  value, whatever the weight, capacity and date fields hold: absent or non-numeric
  numbers count as 0 and unparsable dates give the date score 0.
\<close>

theorem scoring_total_on_well_formed:
  assumes "well_formed s t"
  shows "(\<exists>r. calculateMatchScore s t = Inr r) \<and> (\<exists>rs. getMatchReasons s t = Inr rs)"
proof -
  from assms obtain p where p: "locationSimilarity (pickup_location s) (origin t) = Inr p"
    using locationSimilarity_total unfolding well_formed_def by blast
  from assms obtain d where d: "locationSimilarity (delivery_location s) (destination t) = Inr d"
    using locationSimilarity_total unfolding well_formed_def by blast
  from assms obtain v where v: "calculateVehicleScore s t = Inr v"
    using calculateVehicleScore_total unfolding well_formed_def by blast
  have "\<exists>r. calculateMatchScore s t = Inr r"
    by (simp add: calculateMatchScore_def calculateLocationScore_def p d v Let_def)
  moreover have "\<exists>rs. getMatchReasons s t = Inr rs"
    by (simp add: getMatchReasons_def p d Let_def)
  ultimately show ?thesis by blast
qed

lemma garbled_well_formed: "well_formed garbled_shipment (example_trip\<lparr>capacity := NaN\<rparr>)"
  by (simp add: well_formed_def garbled_shipment_def example_trip_def text_or_missing_def plain_key_def)

lemma garbled_score:
  "calculateMatchScore garbled_shipment (example_trip\<lparr>capacity := NaN\<rparr>) = Inr 30"
  by (simp add: calculateMatchScore_def calculateLocationScore_def calculateCapacityScore_def
      calculateDateScore_def calculateVehicleScore_def diffDays_def
      garbled_shipment_def example_trip_def june10_def example_delivery
      locationSimilarity_def[of JNull] or_zero_def js_num_eq_def js_or_def strict_eq_def)

lemma garbled_reasons:
  "getMatchReasons garbled_shipment (example_trip\<lparr>capacity := NaN\<rparr>) = Inr [DeliveryMatches]"
  by (simp add: getMatchReasons_def diffDays_def
      garbled_shipment_def example_trip_def june10_def example_delivery
      locationSimilarity_def[of JNull] or_zero_def js_num_eq_def js_or_def strict_eq_def js_ge_def ascii_def)

theorem scoring_total_on_well_formed_witness:
  "well_formed garbled_shipment (example_trip\<lparr>capacity := NaN\<rparr>) \<and>
   calculateMatchScore garbled_shipment (example_trip\<lparr>capacity := NaN\<rparr>) = Inr 30 \<and>
   getMatchReasons garbled_shipment (example_trip\<lparr>capacity := NaN\<rparr>) = Inr [DeliveryMatches]"
  using scoring_total_on_well_formed[OF garbled_well_formed]
  by (simp add: garbled_well_formed garbled_score garbled_reasons)

lemma numeric_pickup_raises:
  "locationSimilarity (JNum (Fin 5)) (JStr Riyadh) = Inl TypeError"
  by (simp add: locationSimilarity_def clean_def Riyadh_def)

lemma inherited_name_raises:
  "calculateVehicleScore (example_shipment\<lparr>vehicle_type_preferred := JStr (ascii ''constructor'')\<rparr>)
     example_trip = Inl TypeError"
  by (simp add: calculateVehicleScore_def similarTypes_def object_prototype_names_def
      example_shipment_def example_trip_def js_or_def strict_eq_def ascii_def)

text \<open>
  C10, as the specification states it (no input makes the scorer raise), fails: a
  pickup location that is the number 5 has no \<^verbatim>\<open>toLowerCase\<close>, and the preferred
  vehicle type \<^verbatim>\<open>'constructor'\<close> selects an inherited function without \<^verbatim>\<open>includes\<close>.
\<close>

theorem scoring_raises_counterexample:
  "calculateMatchScore (example_shipment\<lparr>pickup_location := JNum (Fin 5)\<rparr>) example_trip
     = Inl TypeError \<and>
   getMatchReasons (example_shipment\<lparr>pickup_location := JNum (Fin 5)\<rparr>) example_trip
     = Inl TypeError \<and>
   calculateMatchScore (example_shipment\<lparr>vehicle_type_preferred := JStr (ascii ''constructor'')\<rparr>)
     example_trip = Inl TypeError"
proof -
  have "calculateLocationScore
          (example_shipment\<lparr>vehicle_type_preferred := JStr (ascii ''constructor'')\<rparr>)
          example_trip = Inr 1"
    by (simp add: calculateLocationScore_def example_shipment_def example_trip_def
        example_pickup example_delivery)
  then have "calculateMatchScore
          (example_shipment\<lparr>vehicle_type_preferred := JStr (ascii ''constructor'')\<rparr>)
          example_trip = Inl TypeError"
    by (simp add: calculateMatchScore_def inherited_name_raises)
  moreover have "calculateMatchScore (example_shipment\<lparr>pickup_location := JNum (Fin 5)\<rparr>)
      example_trip = Inl TypeError"
    by (simp add: calculateMatchScore_def calculateLocationScore_def example_shipment_def
        example_trip_def numeric_pickup_raises)
  moreover have "getMatchReasons (example_shipment\<lparr>pickup_location := JNum (Fin 5)\<rparr>)
      example_trip = Inl TypeError"
    by (simp add: getMatchReasons_def example_shipment_def example_trip_def
        numeric_pickup_raises)
  ultimately show ?thesis by blast
qed

section \<open>The scoring loop\<close>

lemma calculateMatchScore_at_least_3:
  assumes "calculateMatchScore s t = Inr r"
  shows "3 \<le> r"
proof -
  from assms obtain L V where
    L: "calculateLocationScore s t = Inr L" and V: "calculateVehicleScore s t = Inr V" and
    r: "r = min 100 (max 0 (0 + L * 40 + calculateCapacityScore s t * 30
                              + calculateDateScore s t * 20 + V * 10))"
    by (auto simp: calculateMatchScore_def Let_def split: sum.splits)
  have "0 \<le> L" using calculateLocationScore_range[OF L] by simp
  moreover have "0 \<le> calculateCapacityScore s t" using calculateCapacityScore_range by simp
  moreover have "0 \<le> calculateDateScore s t" using calculateDateScore_range by simp
  moreover have "0.3 \<le> V" using calculateVehicleScore_values[OF V] by auto
  ultimately show ?thesis unfolding r by simp
qed

lemma reasons_if_score:
  "calculateMatchScore s t = Inr r \<Longrightarrow> \<exists>rs. getMatchReasons s t = Inr rs"
  by (auto simp: calculateMatchScore_def calculateLocationScore_def getMatchReasons_def Let_def
      split: sum.splits)

lemma score_trips_all:
  assumes "\<forall>t\<in>set ts. \<exists>r. calculateMatchScore s t = Inr r"
  shows "\<exists>ms. score_trips s ts acc = Inr (acc @ ms) \<and> map trip ms = ts \<and>
              (\<forall>m\<in>set ms. calculateMatchScore s (trip m) = Inr (score m) \<and>
                            getMatchReasons s (trip m) = Inr (reasons m))"
  using assms
proof (induction ts arbitrary: acc)
  case Nil
  then show ?case by simp
next
  case (Cons t ts)
  then obtain r where r: "calculateMatchScore s t = Inr r" by auto
  then obtain rs where rs: "getMatchReasons s t = Inr rs" using reasons_if_score by blast
  have pos: "r > 0" using calculateMatchScore_at_least_3[OF r] by simp
  let ?m = "\<lparr>trip = t, score = r, reasons = rs\<rparr>"
  from Cons.IH[of "acc @ [?m]"] Cons.prems obtain ms where
    ms: "score_trips s ts (acc @ [?m]) = Inr ((acc @ [?m]) @ ms)" "map trip ms = ts"
      "\<forall>m\<in>set ms. calculateMatchScore s (trip m) = Inr (score m) \<and>
                      getMatchReasons s (trip m) = Inr (reasons m)"
    by auto
  have 1: "score_trips s (t # ts) acc = Inr (acc @ (?m # ms))"
    using r rs pos ms(1) by simp
  have 2: "map trip (?m # ms) = t # ts"
    using ms(2) by simp
  have 3: "\<forall>m\<in>set (?m # ms). calculateMatchScore s (trip m) = Inr (score m) \<and>
                      getMatchReasons s (trip m) = Inr (reasons m)"
    using ms(3) r rs by simp
  show ?case
    by (rule exI[where x = "?m # ms"]) (use 1 2 3 in blast)
qed

section \<open>The sort\<close>

lemma insert_sorted_mset: "mset (insert_sorted cmp a xs) = add_mset a (mset xs)"
  by (induction xs) simp_all

lemma array_sort_mset: "mset (array_sort cmp xs) = mset xs"
  by (induction xs) (simp_all add: insert_sorted_mset)

lemma array_sort_set: "set (array_sort cmp xs) = set xs"
  using array_sort_mset[of cmp xs] by (metis set_mset_mset)

lemma insert_sorted_set: "set (insert_sorted cmp a xs) = insert a (set xs)"
  using insert_sorted_mset[of cmp a xs] by (metis set_mset_mset set_mset_add_mset_insert)

lemma insert_sorted_descending:
  "sorted_wrt (\<lambda>a b. f b \<le> f a) xs \<Longrightarrow>
   sorted_wrt (\<lambda>a b. f b \<le> f a) (insert_sorted (\<lambda>a b. f b - f a) x xs)"
proof (induction xs)
  case Nil
  then show ?case by simp
next
  case (Cons y ys)
  show ?case
  proof (cases "f y \<le> f x")
    case True
    with Cons.prems show ?thesis by (auto intro: order_trans)
  next
    case False
    with Cons show ?thesis by (auto simp: insert_sorted_set)
  qed
qed

lemma array_sort_descending:
  "sorted_wrt (\<lambda>a b. f b \<le> f a) (array_sort (\<lambda>a b. f b - f a) xs)"
  by (induction xs) (simp_all add: insert_sorted_descending)

lemma filter_insert_sorted:
  "filter (\<lambda>m. f m = k) (insert_sorted (\<lambda>a b. f b - f a) x xs) =
     (if f x = k then x # filter (\<lambda>m. f m = k) xs else filter (\<lambda>m. f m = k) xs)"
  by (induction xs) auto

lemma array_sort_stable:
  "filter (\<lambda>m. f m = k) (array_sort (\<lambda>a b. f b - f a) xs) = filter (\<lambda>m. f m = k) xs"
  by (induction xs) (simp_all add: filter_insert_sorted)


section \<open>The ranked list\<close>

lemma findMatchingTrips_scored:
  assumes "query_active_trips b today = Inr ts"
    and "\<forall>t\<in>set ts. \<exists>r. calculateMatchScore s t = Inr r"
  obtains ms where "map trip ms = ts"
    and "\<forall>m\<in>set ms. calculateMatchScore s (trip m) = Inr (score m) \<and>
                       getMatchReasons s (trip m) = Inr (reasons m)"
    and "findMatchingTrips b today s = (array_sort (\<lambda>a b. score b - score a) ms, [])"
proof -
  from score_trips_all[OF assms(2), of "[]"] obtain ms where
    ms: "score_trips s ts [] = Inr ms" "map trip ms = ts"
      "\<forall>m\<in>set ms. calculateMatchScore s (trip m) = Inr (score m) \<and>
                      getMatchReasons s (trip m) = Inr (reasons m)"
    by auto
  have "findMatchingTrips b today s = (array_sort (\<lambda>a b. score b - score a) ms, [])"
    by (simp add: findMatchingTrips_def assms(1) ms(1))
  with ms(2,3) that show ?thesis by blast
qed

text \<open>
  One candidate on which scoring raises ends the loop: the \<^verbatim>\<open>catch\<close> block logs the
  error and returns the empty list.
\<close>

lemma score_trips_raises:
  assumes "\<exists>t\<in>set ts. \<exists>e. calculateMatchScore s t = Inl e"
  shows "\<exists>e. score_trips s ts acc = Inl e"
  using assms
proof (induction ts arbitrary: acc)
  case Nil
  then show ?case by simp
next
  case (Cons t ts)
  show ?case
  proof (cases "calculateMatchScore s t")
    case (Inl e)
    then show ?thesis by simp
  next
    case (Inr r)
    with Cons.prems have rest: "\<exists>t\<in>set ts. \<exists>e. calculateMatchScore s t = Inl e"
      by auto
    from reasons_if_score[OF Inr] obtain rs where rs: "getMatchReasons s t = Inr rs"
      by blast
    have "r > 0" using calculateMatchScore_at_least_3[OF Inr] by simp
    with Inr rs Cons.IH[OF rest] show ?thesis by simp
  qed
qed

lemma raising_candidate_empties_the_list:
  assumes "query_active_trips b today = Inr ts"
    and "\<exists>t\<in>set ts. \<exists>e. calculateMatchScore s t = Inl e"
  shows "\<exists>e. findMatchingTrips b today s = ([], [e])"
  using score_trips_raises[OF assms(2), of "[]"] assms(1)
  by (auto simp: findMatchingTrips_def)
lemma query_rows:
  "query_active_trips b today = Inr ts \<Longrightarrow> ts = filter (eligible today) (trips b)"
  by (auto simp: query_active_trips_def split: option.splits)

text \<open>
  The loop keeps exactly the candidates whose composite score is above 0, in their order.
\<close>

lemma score_trips_keeps_positive:
  "score_trips s ts acc = Inr ms \<Longrightarrow>
   \<exists>kept. ms = acc @ kept \<and>
     map trip kept = filter (\<lambda>t. \<exists>r. calculateMatchScore s t = Inr r \<and> 0 < r) ts"
proof (induction ts arbitrary: acc)
  case Nil
  then show ?case by simp
next
  case (Cons t ts)
  from Cons.prems obtain r where r: "calculateMatchScore s t = Inr r"
    by (cases "calculateMatchScore s t") simp_all
  show ?case
  proof (cases "0 < r")
    case True
    with Cons.prems r obtain rs where rs: "getMatchReasons s t = Inr rs"
      by (cases "getMatchReasons s t") simp_all
    let ?m = "\<lparr>trip = t, score = r, reasons = rs\<rparr>"
    from Cons.prems r True rs have "score_trips s ts (acc @ [?m]) = Inr ms" by simp
    from Cons.IH[OF this] obtain kept where
      k: "ms = (acc @ [?m]) @ kept"
        "map trip kept = filter (\<lambda>t. \<exists>r. calculateMatchScore s t = Inr r \<and> 0 < r) ts"
      by blast
    show ?thesis
      by (rule exI[where x = "?m # kept"]) (use k r True in simp)
  next
    case False
    with Cons.prems r have "score_trips s ts acc = Inr ms" by simp
    from Cons.IH[OF this] obtain kept where
      k: "ms = acc @ kept"
        "map trip kept = filter (\<lambda>t. \<exists>r. calculateMatchScore s t = Inr r \<and> 0 < r) ts"
      by blast
    show ?thesis
      by (rule exI[where x = kept]) (use k r False in simp)
  qed
qed

lemma score_trips_completes:
  assumes "\<forall>t\<in>set ts. \<exists>r. calculateMatchScore s t = Inr r"
  shows "\<exists>ms. score_trips s ts [] = Inr ms"
  using score_trips_all[OF assms, of "[]"] by blast

text \<open>
  C1, amended. When the query has answered with the candidates and scoring raises on
  none of them, the returned list holds exactly the candidates whose composite score is
  above 0: the loop does apply the minimum-score guard \<^verbatim>\<open>matchScore > 0\<close>. A composite
  score is never below 3 (the vehicle sub-score is at least 0.3), so the guard removes
  nothing and every eligible trip of the table appears in the list.
\<close>

theorem every_candidate_is_listed:
  assumes "query_active_trips b today = Inr ts"
    and "\<forall>t\<in>set ts. \<exists>r. calculateMatchScore s t = Inr r"
  shows "mset (map trip (fst (findMatchingTrips b today s))) =
           mset (filter (\<lambda>t. \<exists>r. calculateMatchScore s t = Inr r \<and> 0 < r) ts) \<and>
         filter (\<lambda>t. \<exists>r. calculateMatchScore s t = Inr r \<and> 0 < r) ts = ts \<and>
         mset (map trip (fst (findMatchingTrips b today s))) = mset ts \<and>
         (\<forall>t\<in>set (trips b). eligible today t \<longrightarrow>
            t \<in> trip ` set (fst (findMatchingTrips b today s))) \<and>
         (\<forall>m\<in>set (fst (findMatchingTrips b today s)).
            calculateMatchScore s (trip m) = Inr (score m) \<and> 3 \<le> score m)"
proof -
  let ?positive = "\<lambda>t. \<exists>r. calculateMatchScore s t = Inr r \<and> 0 < r"
  let ?by_score = "\<lambda>a b. score b - score a"
  from score_trips_completes[OF assms(2)] obtain ms where ms: "score_trips s ts [] = Inr ms"
    by blast
  from score_trips_keeps_positive[OF ms] have kept: "map trip ms = filter ?positive ts"
    by simp
  let ?res = "fst (findMatchingTrips b today s)"
  have res: "?res = array_sort ?by_score ms"
    by (simp add: findMatchingTrips_def assms(1) ms)
  have guard: "mset (map trip ?res) = mset (filter ?positive ts)"
    unfolding res using kept array_sort_mset[of ?by_score ms]
    by (metis mset_map)
  have "\<forall>t\<in>set ts. ?positive t"
  proof
    fix t assume "t \<in> set ts"
    with assms(2) obtain r where r: "calculateMatchScore s t = Inr r" by blast
    with calculateMatchScore_at_least_3[OF r] show "?positive t" by auto
  qed
  then have all: "filter ?positive ts = ts"
    by (simp add: filter_id_conv)
  have m: "mset (map trip ?res) = mset ts"
    using guard all by simp
  have "set (map trip ?res) = set ts"
    using m by (metis set_mset_mset)
  then have listed: "\<forall>t\<in>set (trips b). eligible today t \<longrightarrow> t \<in> trip ` set ?res"
    using query_rows[OF assms(1)] by auto
  from score_trips_all[OF assms(2), of "[]"] ms have
    "\<forall>m\<in>set ms. calculateMatchScore s (trip m) = Inr (score m)"
    by auto
  then have scores: "\<forall>m\<in>set ?res. calculateMatchScore s (trip m) = Inr (score m) \<and> 3 \<le> score m"
    unfolding res using calculateMatchScore_at_least_3
    by (auto simp: array_sort_set)
  from guard all m listed scores show ?thesis by (intro conjI)
qed

lemma map_filter_agree:
  "\<forall>x\<in>set xs. P x = Q (f x) \<Longrightarrow> map f (filter P xs) = filter Q (map f xs)"
  by (induction xs) simp_all

text \<open>
  C9. The returned list is in descending order of score; among the entries of one score
  the trips keep the order in which the query returned them; and no candidates give the
  empty list.
\<close>

theorem ranking_sorted_and_stable:
  "sorted_wrt (\<lambda>a b. score b \<le> score a) (fst (findMatchingTrips b today s)) \<and>
   (\<forall>ts. query_active_trips b today = Inr ts \<and>
         (\<forall>t\<in>set ts. \<exists>r. calculateMatchScore s t = Inr r) \<longrightarrow>
      (\<forall>k. map trip (filter (\<lambda>m. score m = k) (fst (findMatchingTrips b today s))) =
           filter (\<lambda>t. calculateMatchScore s t = Inr k) ts)) \<and>
   (query_active_trips b today = Inr [] \<longrightarrow> fst (findMatchingTrips b today s) = [])"
proof (intro conjI allI impI)
  show "sorted_wrt (\<lambda>a b. score b \<le> score a) (fst (findMatchingTrips b today s))"
    by (simp add: findMatchingTrips_def array_sort_descending split: sum.splits)
next
  fix ts k
  assume a: "query_active_trips b today = Inr ts \<and>
             (\<forall>t\<in>set ts. \<exists>r. calculateMatchScore s t = Inr r)"
  then obtain ms where
    ms: "map trip ms = ts"
      "\<forall>m\<in>set ms. calculateMatchScore s (trip m) = Inr (score m) \<and>
                      getMatchReasons s (trip m) = Inr (reasons m)"
      "findMatchingTrips b today s = (array_sort (\<lambda>a b. score b - score a) ms, [])"
    using findMatchingTrips_scored by blast
  have "filter (\<lambda>m. score m = k) (fst (findMatchingTrips b today s)) =
        filter (\<lambda>m. score m = k) ms"
    by (simp add: ms(3) array_sort_stable)
  moreover have "map trip (filter (\<lambda>m. score m = k) ms) =
        filter (\<lambda>t. calculateMatchScore s t = Inr k) (map trip ms)"
    by (rule map_filter_agree) (use ms(2) in auto)
  ultimately show "map trip (filter (\<lambda>m. score m = k) (fst (findMatchingTrips b today s))) =
           filter (\<lambda>t. calculateMatchScore s t = Inr k) ts"
    using ms(1) by simp
next
  assume "query_active_trips b today = Inr []"
  then show "fst (findMatchingTrips b today s) = []"
    by (simp add: findMatchingTrips_def)
qed


lemma busy_query:
  "query_active_trips busy_backend june10 = Inr [later_trip, example_trip, later_trip']"
  by (simp add: query_active_trips_def busy_backend_def example_backend_def eligible_def
      later_trip_def later_trip'_def inactive_trip_def example_trip_def june10_def june12_def
      js_ge_def ascii_def)

lemma later_score: "calculateMatchScore example_shipment later_trip = Inr 94"
  by (simp add: calculateMatchScore_def calculateLocationScore_def calculateCapacityScore_def
      calculateDateScore_def calculateVehicleScore_def diffDays_def
      later_trip_def example_shipment_def example_trip_def june10_def june12_def
      example_pickup example_delivery or_zero_def js_num_eq_def js_ge_def js_or_def
      strict_eq_def ascii_def)

lemma later_score': "calculateMatchScore example_shipment later_trip' = Inr 94"
  by (simp add: calculateMatchScore_def calculateLocationScore_def calculateCapacityScore_def
      calculateDateScore_def calculateVehicleScore_def diffDays_def
      later_trip'_def example_shipment_def example_trip_def june10_def june12_def
      example_pickup example_delivery or_zero_def js_num_eq_def js_ge_def js_or_def
      strict_eq_def ascii_def)

lemma example_score: "calculateMatchScore example_shipment example_trip = Inr 100"
  by (simp add: calculateMatchScore_def example_location example_vehicle example_capacity
      example_date)

lemma example_reasons:
  "getMatchReasons example_shipment example_trip =
     Inr [PickupMatches, DeliveryMatches, CapacityIdeal, DateExact, VehicleMatches]"
  by (simp add: getMatchReasons_def diffDays_def example_shipment_def example_trip_def
      june10_def example_pickup example_delivery or_zero_def js_num_eq_def js_ge_def
      js_or_def strict_eq_def ascii_def)

lemma later_reasons:
  "getMatchReasons example_shipment later_trip =
     Inr [PickupMatches, DeliveryMatches, CapacityIdeal, DaysApart (Fin 2), VehicleMatches]"
  by (simp add: getMatchReasons_def diffDays_def example_shipment_def example_trip_def
      later_trip_def june10_def june12_def example_pickup example_delivery or_zero_def
      js_num_eq_def js_ge_def js_or_def strict_eq_def ascii_def)

lemma later_reasons':
  "getMatchReasons example_shipment later_trip' =
     Inr [PickupMatches, DeliveryMatches, CapacityIdeal, DaysApart (Fin 2), VehicleMatches]"
  by (simp add: getMatchReasons_def diffDays_def example_shipment_def example_trip_def
      later_trip'_def june10_def june12_def example_pickup example_delivery or_zero_def
      js_num_eq_def js_ge_def js_or_def strict_eq_def ascii_def)

lemma busy_ranking:
  "map trip (fst (findMatchingTrips busy_backend june10 example_shipment)) =
     [example_trip, later_trip, later_trip']"
  by (simp add: findMatchingTrips_def busy_query later_score later_score' example_score
      example_reasons later_reasons later_reasons')

lemma busy_scored:
  "\<forall>t\<in>set [later_trip, example_trip, later_trip'].
     \<exists>r. calculateMatchScore example_shipment t = Inr r"
  by (simp add: later_score later_score' example_score)

lemma busy_rows:
  "trips busy_backend = [later_trip, example_trip, inactive_trip, later_trip']"
  by (simp add: busy_backend_def)

lemma busy_eligible:
  "eligible june10 later_trip \<and> eligible june10 example_trip \<and>
   eligible june10 later_trip' \<and> \<not> eligible june10 inactive_trip"
  by (simp add: eligible_def later_trip_def later_trip'_def inactive_trip_def example_trip_def
      june10_def june12_def js_ge_def ascii_def)

theorem every_candidate_is_listed_witness:
  "query_active_trips busy_backend june10 = Inr [later_trip, example_trip, later_trip'] \<and>
   calculateMatchScore example_shipment later_trip = Inr 94 \<and>
   calculateMatchScore example_shipment example_trip = Inr 100 \<and>
   calculateMatchScore example_shipment later_trip' = Inr 94 \<and>
   later_trip \<in> trip ` set (fst (findMatchingTrips busy_backend june10 example_shipment)) \<and>
   example_trip \<in> trip ` set (fst (findMatchingTrips busy_backend june10 example_shipment)) \<and>
   later_trip' \<in> trip ` set (fst (findMatchingTrips busy_backend june10 example_shipment))"
proof -
  have "\<forall>t\<in>set (trips busy_backend). eligible june10 t \<longrightarrow>
          t \<in> trip ` set (fst (findMatchingTrips busy_backend june10 example_shipment))"
    using every_candidate_is_listed[OF busy_query busy_scored] by (elim conjE)
  then have "later_trip \<in> trip ` set (fst (findMatchingTrips busy_backend june10 example_shipment))"
    and "example_trip \<in> trip ` set (fst (findMatchingTrips busy_backend june10 example_shipment))"
    and "later_trip' \<in> trip ` set (fst (findMatchingTrips busy_backend june10 example_shipment))"
    using busy_eligible by (simp_all add: busy_rows)
  with busy_query later_score example_score later_score' show ?thesis
    by (intro conjI)
qed

lemma numeric_origin_raises:
  "calculateMatchScore example_shipment numeric_origin_trip = Inl TypeError"
  by (simp add: calculateMatchScore_def calculateLocationScore_def locationSimilarity_def
      clean_def example_shipment_def example_trip_def numeric_origin_trip_def Riyadh_def)

lemma mixed_query:
  "query_active_trips mixed_backend june10 = Inr [example_trip, numeric_origin_trip]"
  by (simp add: query_active_trips_def mixed_backend_def example_backend_def eligible_def
      numeric_origin_trip_def example_trip_def june10_def js_ge_def)

lemma mixed_result:
  "findMatchingTrips mixed_backend june10 example_shipment = ([], [TypeError])"
  by (simp add: findMatchingTrips_def mixed_query example_score example_reasons
      numeric_origin_raises)

text \<open>
  C1, as the specification states it, fails: the table holds the example trip, eligible
  and scoring 100, and after it a trip whose origin is the number 5. Scoring raises on
  the second, the \<^verbatim>\<open>catch\<close> block returns the empty list, and the example trip is not
  in it.
\<close>

theorem lost_candidate_counterexample:
  "query_active_trips mixed_backend june10 = Inr [example_trip, numeric_origin_trip] \<and>
   example_trip \<in> set (trips mixed_backend) \<and>
   eligible june10 example_trip \<and>
   calculateMatchScore example_shipment example_trip = Inr 100 \<and>
   fst (findMatchingTrips mixed_backend june10 example_shipment) = []"
proof -
  have rows: "example_trip \<in> set (trips mixed_backend)"
    by (simp add: mixed_backend_def)
  have listed: "fst (findMatchingTrips mixed_backend june10 example_shipment) = []"
    by (simp add: mixed_result)
  from busy_eligible have "eligible june10 example_trip"
    by (elim conjE)
  with mixed_query rows example_score listed show ?thesis
    by (intro conjI)
qed


theorem ranking_sorted_and_stable_witness:
  "sorted_wrt (\<lambda>a b. score b \<le> score a)
     (fst (findMatchingTrips busy_backend june10 example_shipment)) \<and>
   query_active_trips busy_backend june10 = Inr [later_trip, example_trip, later_trip'] \<and>
   map trip (filter (\<lambda>m. score m = 94)
     (fst (findMatchingTrips busy_backend june10 example_shipment))) =
     [later_trip, later_trip'] \<and>
   query_active_trips (example_backend\<lparr>trips := []\<rparr>) june10 = Inr [] \<and>
   fst (findMatchingTrips (example_backend\<lparr>trips := []\<rparr>) june10 example_shipment) = []"
proof -
  note busy = ranking_sorted_and_stable[of busy_backend june10 example_shipment]
  note none = ranking_sorted_and_stable[of "example_backend\<lparr>trips := []\<rparr>" june10
      example_shipment]
  have empty: "query_active_trips (example_backend\<lparr>trips := []\<rparr>) june10 = Inr []"
    by (simp add: query_active_trips_def example_backend_def)
  have ties: "filter (\<lambda>t. calculateMatchScore example_shipment t = Inr 94)
          [later_trip, example_trip, later_trip'] = [later_trip, later_trip']"
    by (simp add: later_score later_score' example_score)
  have 1: "sorted_wrt (\<lambda>a b. score b \<le> score a)
     (fst (findMatchingTrips busy_backend june10 example_shipment))"
    using busy by (elim conjE)
  have st: "\<forall>ts. query_active_trips busy_backend june10 = Inr ts \<and>
         (\<forall>t\<in>set ts. \<exists>r. calculateMatchScore example_shipment t = Inr r) \<longrightarrow>
      (\<forall>k. map trip (filter (\<lambda>m. score m = k)
              (fst (findMatchingTrips busy_backend june10 example_shipment))) =
           filter (\<lambda>t. calculateMatchScore example_shipment t = Inr k) ts)"
    using busy by (elim conjE)
  have 2: "map trip (filter (\<lambda>m. score m = 94)
     (fst (findMatchingTrips busy_backend june10 example_shipment))) =
     [later_trip, later_trip']"
    using st[rule_format, OF conjI[OF busy_query busy_scored], of 94] ties by simp
  have 3: "fst (findMatchingTrips (example_backend\<lparr>trips := []\<rparr>) june10 example_shipment) = []"
    using none empty by (elim conjE impE)
  from 1 2 3 busy_query empty show ?thesis
    by (intro conjI)
qed


section \<open>The cascade of location similarity\<close>

lemma region_shared_iff:
  "region_shared c1 c2 \<longleftrightarrow>
     (\<exists>(region, regionCities)\<in>set regions.
        (\<exists>city\<in>set regionCities. str_includes c1 city) \<and>
        (\<exists>city\<in>set regionCities. str_includes c2 city))"
  by (auto simp: region_shared_def list_ex_iff)

text \<open>
  C6, amended. \<^verbatim>\<open>locationSimilarity\<close> is an ordered cascade and the first rule that
  applies gives the value. A falsy input (absent, null, the empty string), tested before
  any cleaning, gives 0. Otherwise, on the lower-cased and trimmed strings: equal gives
  1.0; one containing the other gives 0.8; the first city of the gazetteer (in its list
  order) found in the one being also the first found in the other gives 0.9; both
  containing cities of one region gives 0.6; anything else gives 0.2. The containment
  rule stands before the city rule and so shadows it.
\<close>

theorem locationSimilarity_cascade:
  "(falsy loc1 \<or> falsy loc2 \<longrightarrow> locationSimilarity loc1 loc2 = Inr 0) \<and>
   (\<forall>a b. loc1 = JStr a \<and> loc2 = JStr b \<and> a \<noteq> [] \<and> b \<noteq> [] \<longrightarrow>
      (let c1 = trim (toLowerCase a);
           c2 = trim (toLowerCase b);
           first1 = find (\<lambda>city. str_includes c1 city) cities;
           first2 = find (\<lambda>city. str_includes c2 city) cities
       in locationSimilarity loc1 loc2 = Inr
            (if c1 = c2 then 1
             else if str_includes c1 c2 \<or> str_includes c2 c1 then 0.8
             else if first1 \<noteq> None \<and> first1 = first2 then 0.9
             else if (\<exists>(region, regionCities)\<in>set regions.
                        (\<exists>city\<in>set regionCities. str_includes c1 city) \<and>
                        (\<exists>city\<in>set regionCities. str_includes c2 city)) then 0.6
             else 0.2)))"
proof (intro conjI allI impI)
  assume "falsy loc1 \<or> falsy loc2"
  then show "locationSimilarity loc1 loc2 = Inr 0"
    by (auto simp: locationSimilarity_def)
next
  fix a b
  assume "loc1 = JStr a \<and> loc2 = JStr b \<and> a \<noteq> [] \<and> b \<noteq> []"
  then have "locationSimilarity loc1 loc2 =
      Inr (similarity_rules (trim (toLowerCase a)) (trim (toLowerCase b)))"
    by (simp add: locationSimilarity_def clean_def)
  then show "let c1 = trim (toLowerCase a);
           c2 = trim (toLowerCase b);
           first1 = find (\<lambda>city. str_includes c1 city) cities;
           first2 = find (\<lambda>city. str_includes c2 city) cities
       in locationSimilarity loc1 loc2 = Inr
            (if c1 = c2 then 1
             else if str_includes c1 c2 \<or> str_includes c2 c1 then 0.8
             else if first1 \<noteq> None \<and> first1 = first2 then 0.9
             else if (\<exists>(region, regionCities)\<in>set regions.
                        (\<exists>city\<in>set regionCities. str_includes c1 city) \<and>
                        (\<exists>city\<in>set regionCities. str_includes c2 city)) then 0.6
             else 0.2)"
    unfolding Let_def similarity_rules_def region_shared_iff by auto
qed

lemma clean_riyadh_jeddah: "trim (toLowerCase riyadh_jeddah) = riyadh_jeddah"
  by (simp add: riyadh_jeddah_def trim_def toLowerCase_def lower_unit_def white_space_def city_defs)

lemma clean_jeddah_makkah: "trim (toLowerCase jeddah_makkah) = jeddah_makkah"
  by (simp add: jeddah_makkah_def trim_def toLowerCase_def lower_unit_def white_space_def city_defs)

lemma first_riyadh_jeddah: "find (\<lambda>city. str_includes riyadh_jeddah city) cities = Some Riyadh"
  by (simp add: riyadh_jeddah_def cities_def city_defs)

lemma first_jeddah_makkah: "find (\<lambda>city. str_includes jeddah_makkah city) cities = Some Jeddah"
  by (simp add: jeddah_makkah_def cities_def city_defs)

lemma both_hold_jeddah:
  "str_includes riyadh_jeddah Jeddah \<and> str_includes jeddah_makkah Jeddah"
  by (simp add: riyadh_jeddah_def jeddah_makkah_def city_defs)

lemma not_nested:
  "riyadh_jeddah \<noteq> jeddah_makkah \<and> \<not> str_includes riyadh_jeddah jeddah_makkah \<and>
   \<not> str_includes jeddah_makkah riyadh_jeddah"
  by (simp add: riyadh_jeddah_def jeddah_makkah_def city_defs)

lemma west_shared: "region_shared riyadh_jeddah jeddah_makkah"
  by (simp add: region_shared_def regions_def riyadh_jeddah_def jeddah_makkah_def city_defs)

lemma two_cities_rules: "similarity_rules riyadh_jeddah jeddah_makkah = 0.6"
  using not_nested west_shared
  by (simp add: similarity_rules_def first_riyadh_jeddah first_jeddah_makkah city_defs)

lemma two_cities_claimed: "claimed_rules riyadh_jeddah jeddah_makkah = 0.9"
  using not_nested both_hold_jeddah
  by (simp add: claimed_rules_def same_city_contained_def cities_def)

text \<open>
  C6, as the specification states it, fails on its city rule. "Riyadh Jeddah" and
  "Jeddah Makkah" both contain the gazetteer city Jeddah and neither contains the other,
  so the stated cascade gives 0.9. The source finds Riyadh first in the one and Jeddah
  first in the other, takes the cities to differ, and the region rule gives 0.6.
\<close>

theorem same_city_counterexample:
  "str_includes (trim (toLowerCase riyadh_jeddah)) Jeddah \<and>
   str_includes (trim (toLowerCase jeddah_makkah)) Jeddah \<and>
   claimed_rules (trim (toLowerCase riyadh_jeddah)) (trim (toLowerCase jeddah_makkah)) = 0.9 \<and>
   locationSimilarity (JStr riyadh_jeddah) (JStr jeddah_makkah) = Inr 0.6"
proof -
  have "riyadh_jeddah \<noteq> [] \<and> jeddah_makkah \<noteq> []"
    by (simp add: riyadh_jeddah_def jeddah_makkah_def city_defs)
  then have "locationSimilarity (JStr riyadh_jeddah) (JStr jeddah_makkah) = Inr 0.6"
    by (simp add: locationSimilarity_def clean_def clean_riyadh_jeddah clean_jeddah_makkah
        two_cities_rules)
  then show ?thesis
    using both_hold_jeddah two_cities_claimed
    by (simp add: clean_riyadh_jeddah clean_jeddah_makkah)
qed


lemma clean_riyadh: "trim (toLowerCase Riyadh) = Riyadh"
  by (simp add: trim_def toLowerCase_def lower_unit_def white_space_def city_defs)

lemma riyadh_nested:
  "Riyadh \<noteq> [] \<and> riyadh_jeddah \<noteq> [] \<and> Riyadh \<noteq> riyadh_jeddah \<and>
   str_includes riyadh_jeddah Riyadh"
  by (simp add: riyadh_jeddah_def city_defs)

lemma first_riyadh: "find (\<lambda>city. str_includes Riyadh city) cities = Some Riyadh"
  by (simp add: cities_def city_defs)

theorem locationSimilarity_cascade_witness:
  "falsy JNull \<and> locationSimilarity JNull (JStr Riyadh) = Inr 0 \<and>
   Riyadh \<noteq> [] \<and> riyadh_jeddah \<noteq> [] \<and>
   find (\<lambda>city. str_includes (trim (toLowerCase Riyadh)) city) cities = Some Riyadh \<and>
   find (\<lambda>city. str_includes (trim (toLowerCase riyadh_jeddah)) city) cities = Some Riyadh \<and>
   locationSimilarity (JStr Riyadh) (JStr riyadh_jeddah) = Inr 0.8"
proof -
  have missing: "locationSimilarity JNull (JStr Riyadh) = Inr 0"
    using locationSimilarity_cascade[of JNull "JStr Riyadh"] by simp
  have "let c1 = trim (toLowerCase Riyadh);
            c2 = trim (toLowerCase riyadh_jeddah);
            first1 = find (\<lambda>city. str_includes c1 city) cities;
            first2 = find (\<lambda>city. str_includes c2 city) cities
        in locationSimilarity (JStr Riyadh) (JStr riyadh_jeddah) = Inr
            (if c1 = c2 then 1
             else if str_includes c1 c2 \<or> str_includes c2 c1 then 0.8
             else if first1 \<noteq> None \<and> first1 = first2 then 0.9
             else if (\<exists>(region, regionCities)\<in>set regions.
                        (\<exists>city\<in>set regionCities. str_includes c1 city) \<and>
                        (\<exists>city\<in>set regionCities. str_includes c2 city)) then 0.6
             else 0.2)"
    using locationSimilarity_cascade[of "JStr Riyadh" "JStr riyadh_jeddah"] riyadh_nested
    by blast
  then have shadowed: "locationSimilarity (JStr Riyadh) (JStr riyadh_jeddah) = Inr 0.8"
    using riyadh_nested by (simp add: Let_def clean_riyadh clean_riyadh_jeddah)
  from missing shadowed riyadh_nested first_riyadh first_riyadh_jeddah show ?thesis
    by (simp add: clean_riyadh clean_riyadh_jeddah)
qed


section \<open>A failed query\<close>

text \<open>
  C4, amended. When the query for candidate trips fails, \<^verbatim>\<open>findMatchingTrips\<close> catches
  the error, hands it to \<^verbatim>\<open>console.error\<close> once and returns the empty array; nothing is
  raised to the caller and the query is not repeated.
\<close>

theorem query_failure_returns_empty_list:
  "query_active_trips b today = Inl e \<Longrightarrow> findMatchingTrips b today s = ([], [e])"
  by (simp add: findMatchingTrips_def)

lemma failing_query: "query_active_trips failing_backend june10 = Inl fetch_failure"
  by (simp add: query_active_trips_def failing_backend_def)

lemma empty_query: "query_active_trips (example_backend\<lparr>trips := []\<rparr>) june10 = Inr []"
  by (simp add: query_active_trips_def example_backend_def)

theorem query_failure_returns_empty_list_witness:
  "query_active_trips failing_backend june10 = Inl fetch_failure \<and>
   findMatchingTrips failing_backend june10 example_shipment = ([], [fetch_failure])"
  using query_failure_returns_empty_list[OF failing_query, of example_shipment] failing_query
  by simp

text \<open>
  C4, as the specification states it, fails: the value returned after a failed query is
  the ordinary empty list, the same value a healthy backend without trips gives; the
  caller cannot tell the two apart.
\<close>

theorem query_failure_counterexample:
  "query_active_trips failing_backend june10 = Inl fetch_failure \<and>
   query_active_trips (example_backend\<lparr>trips := []\<rparr>) june10 = Inr [] \<and>
   fst (findMatchingTrips failing_backend june10 example_shipment) =
   fst (findMatchingTrips (example_backend\<lparr>trips := []\<rparr>) june10 example_shipment)"
  by (simp add: findMatchingTrips_def failing_query empty_query)

section \<open>Contact requests for a trip that does not exist\<close>














lemma example_contact_ok:
  "sendContactRequest (Some 11) example_backend (ascii ''t'') 5 1 (ascii ''hello'') =
    (Success, example_backend\<lparr>contact_requests :=
       [\<lparr>req_shipper_id = 3, req_carrier_id = 7, req_shipment_id = 5, req_trip_id = 1,
         req_message = ascii ''hello'', req_status = ascii ''pending'', req_created_at = ascii ''t''\<rparr>]\<rparr>, [])"
  by (simp add: sendContactRequest_def contact_attempt_def single_def insert_contact_request_def
      example_backend_def example_trip_def)

end
